theory Spec2Isabelle
  imports Main "HOL-Library.AList"
begin

section \<open>The ORM of src/webapp/www/orm.py\<close>

text \<open>
  The module defines a metaclass that derives, from the \<open>Field\<close> attributes of a class
  body, the table name, the primary key, the ordinary fields and four SQL templates, and
  a base class \<open>Model\<close> (a \<open>dict\<close> subclass) with \<open>getValueOrDefault\<close>, \<open>find\<close> and
  \<open>save\<close>. Everything the Python does beyond returning a value is explicit here:
  exceptions are the left summand of a result, the calls to \<open>logging\<close> and to callable
  defaults are recorded in a \<open>world\<close>, and the mutation of the instance is a returned
  instance.
\<close>

subsection \<open>Python values and their text\<close>

text \<open>
  The values a column can hold, as far as the code inspects them: it tests
  \<open>is None\<close>, truthiness, and formats with \<open>%s\<close>. \<open>PObj s\<close> is any other
  object (a bound method, a list, ...): it is not \<open>None\<close>, it is truthy, and only the
  text \<open>s\<close> that \<open>str\<close> gives for it is kept.
\<close>

datatype pyval = PNone | PBool bool | PInt int | PStr string | PObj string

fun truthy :: "pyval \<Rightarrow> bool" where
  "truthy PNone = False"
| "truthy (PBool b) = b"
| "truthy (PInt i) = (i \<noteq> 0)"
| "truthy (PStr s) = (s \<noteq> [])"
| "truthy (PObj s) = True"

fun str_nat :: "nat \<Rightarrow> string" where
  "str_nat n =
     (if n < 10 then [''0123456789'' ! n]
      else str_nat (n div 10) @ [''0123456789'' ! (n mod 10)])"

declare str_nat.simps [simp del]

definition str_int :: "int \<Rightarrow> string" where
  "str_int i = (if i < 0 then ''-'' @ str_nat (nat (- i)) else str_nat (nat i))"

text \<open>\<open>str(v)\<close>, which is also what \<open>'%s' % v\<close> inserts.\<close>

fun py_str :: "pyval \<Rightarrow> string" where
  "py_str PNone = ''None''"
| "py_str (PBool b) = (if b then ''True'' else ''False'')"
| "py_str (PInt i) = str_int i"
| "py_str (PStr s) = s"
| "py_str (PObj s) = s"

text \<open>\<open>sep.join(xs)\<close>\<close>

fun join :: "string \<Rightarrow> string list \<Rightarrow> string" where
  "join sep [] = []"
| "join sep [x] = x"
| "join sep (x # y # ys) = x @ sep @ join sep (y # ys)"

subsection \<open>Errors, the log and callable defaults\<close>

datatype error =
    RuntimeError string
  | KeyError string
  | AttributeError string
  | TypeError  \<comment> \<open>its message differs between Python versions and is left out\<close>
  | DriverError string  \<comment> \<open>whatever the database driver raises\<close>

datatype level = DEBUG | INFO | WARNING

text \<open>
  A callable default is a Python object with an identity; \<open>results w g n\<close> is what
  the \<open>n\<close>-th invocation of callable \<open>g\<close> returns and \<open>calls w g\<close> counts the
  invocations made so far. \<open>logged\<close> is the sequence of calls made to \<open>logging\<close>.
\<close>

record world =
  calls :: "nat \<Rightarrow> nat"
  results :: "nat \<Rightarrow> nat \<Rightarrow> pyval"
  logged :: "(level \<times> string) list"

definition emit :: "level \<Rightarrow> string \<Rightarrow> world \<Rightarrow> world" where
  "emit l msg w = w\<lparr>logged := logged w @ [(l, msg)]\<rparr>"

definition invoke :: "world \<Rightarrow> nat \<Rightarrow> pyval \<times> world" where
  "invoke w g = (results w g (calls w g), w\<lparr>calls := (calls w)(g := Suc (calls w g))\<rparr>)"

subsection \<open>class Field\<close>

text \<open>
  \<open>default is None\<close> is \<open>DVal PNone\<close>; \<open>callable(default)\<close> holds of \<open>DCall g\<close> only.
  \<open>name\<close> is \<open>None\<close> when the column name is absent. \<open>class_name\<close> is
  \<open>self.__class__.__name__\<close>, which \<open>__str__\<close> prints.
\<close>

datatype dflt = DVal pyval | DCall nat

record field =
  class_name :: string
  name :: "string option"
  column_type :: string
  primary_key :: bool
  default_v :: dflt

definition Field :: "string option \<Rightarrow> string \<Rightarrow> bool \<Rightarrow> dflt \<Rightarrow> field" where
  "Field n ct pk d =
     \<lparr>class_name = ''Field'', name = n, column_type = ct, primary_key = pk, default_v = d\<rparr>"

text \<open>\<open>StringField(name=None, primary_key=False, default=None, ddl='varchar(100)')\<close>\<close>

definition StringField :: "string option \<Rightarrow> bool \<Rightarrow> dflt \<Rightarrow> string \<Rightarrow> field" where
  "StringField n pk d ddl = (Field n ddl pk d)\<lparr>class_name := ''StringField''\<rparr>"

definition Field_str :: "field \<Rightarrow> string" where
  "Field_str f =
     ''<'' @ class_name f @ '', '' @ column_type f @ '', '' @
     (case name f of None \<Rightarrow> ''None'' | Some n \<Rightarrow> n) @ ''>''"

subsection \<open>The class namespace\<close>

text \<open>
  \<open>attrs\<close> is the dict of the class body, in insertion order. An entry is a \<open>Field\<close>,
  a plain value, or any other object (a function, say), which is truthy and of which
  only the text \<open>str\<close> gives is kept.
\<close>

datatype attr = FieldAttr field | ValAttr pyval | ObjAttr string

fun attr_truthy :: "attr \<Rightarrow> bool" where
  "attr_truthy (FieldAttr f) = True"
| "attr_truthy (ValAttr v) = truthy v"
| "attr_truthy (ObjAttr s) = True"

fun attr_str :: "attr \<Rightarrow> string" where
  "attr_str (FieldAttr f) = Field_str f"
| "attr_str (ValAttr v) = py_str v"
| "attr_str (ObjAttr s) = s"

type_synonym attrs = "(string \<times> attr) list"

subsection \<open>create\_args\_string\<close>

text \<open>The loop appends \<open>'?'\<close> \<open>num\<close> times; the list is then joined with commas.\<close>

fun qmarks :: "nat \<Rightarrow> string list \<Rightarrow> string list" where
  "qmarks 0 L = L"
| "qmarks (Suc n) L = qmarks n (L @ [''?''])"

definition create_args_string :: "nat \<Rightarrow> string" where
  "create_args_string num = join '','' (qmarks num [])"

subsection \<open>ModelMetaclass.\_\_new\_\_\<close>

text \<open>
  The three locals the first loop fills; \<open>field_keys\<close> is the local \<open>fields\<close>.
\<close>

record scan =
  mappings :: "(string \<times> field) list"
  field_keys :: "string list"
  primaryKey :: "string option"

text \<open>
  \<open>if primaryKey:\<close> tests the truth of the variable: \<open>None\<close> and the empty string are
  both false.
\<close>

fun key_truthy :: "string option \<Rightarrow> bool" where
  "key_truthy None = False"
| "key_truthy (Some k) = (k \<noteq> [])"

text \<open>\<open>for k, v in attrs.items(): ...\<close> (lines 104 to 116)\<close>

fun scan_attrs :: "attrs \<Rightarrow> scan \<Rightarrow> world \<Rightarrow> (error + scan) \<times> world" where
  "scan_attrs [] st w = (Inr st, w)"
| "scan_attrs ((k, v) # rest) st w =
     (case v of
        FieldAttr f \<Rightarrow>
          (let w1 = emit INFO (''found mapping: '' @ k @ '' ==> '' @ Field_str f) w;
               st1 = st\<lparr>mappings := AList.update k f (mappings st)\<rparr>
           in if primary_key f then
                (if key_truthy (primaryKey st1)
                 then (Inl (RuntimeError (''Duplicate primary key for field: '' @ k)), w1)
                 else scan_attrs rest (st1\<lparr>primaryKey := Some k\<rparr>) w1)
              else scan_attrs rest (st1\<lparr>field_keys := field_keys st1 @ [k]\<rparr>) w1)
      | _ \<Rightarrow> scan_attrs rest st w)"

text \<open>\<open>for k in mappings.keys(): attrs.pop(k)\<close>; \<open>pop\<close> raises on a missing key.\<close>

fun pop_all :: "string list \<Rightarrow> attrs \<Rightarrow> error + attrs" where
  "pop_all [] a = Inr a"
| "pop_all (k # ks) a =
     (if k \<in> fst ` set a then pop_all ks (AList.delete k a) else Inl (KeyError k))"

text \<open>
  \<open>map(lambda f: '`%s`=?' % (mappings.get(f).name or f), fields)\<close>: \<open>get\<close> gives
  \<open>None\<close> for a missing key, whose \<open>.name\<close> raises AttributeError; \<open>name or f\<close> takes
  \<open>f\<close> when the name is \<open>None\<close> or empty.
\<close>

definition name_or :: "string option \<Rightarrow> string \<Rightarrow> string" where
  "name_or n f = (case n of None \<Rightarrow> f | Some s \<Rightarrow> if s = [] then f else s)"

fun set_clauses :: "(string \<times> field) list \<Rightarrow> string list \<Rightarrow> error + string list" where
  "set_clauses m [] = Inr []"
| "set_clauses m (f # fs) =
     (case map_of m f of
        None \<Rightarrow> Inl (AttributeError ''name'')
      | Some fld \<Rightarrow>
          (case set_clauses m fs of
             Inl e \<Rightarrow> Inl e
           | Inr cs \<Rightarrow> Inr ((''`'' @ name_or (name fld) f @ ''`=?'') # cs)))"

text \<open>
  What the metaclass stores in the namespace under \<open>__mappings__\<close>, \<open>__table__\<close>,
  \<open>__primary_key__\<close>, \<open>__fields__\<close>, \<open>__select__\<close>, \<open>__insert__\<close>, \<open>__update__\<close>
  and \<open>__delete__\<close>.
\<close>

record schema =
  s_mappings :: "(string \<times> field) list"
  s_table :: attr
  s_primary_key :: string
  s_fields :: "string list"
  s_select :: string
  s_insert :: string
  s_update :: string
  s_delete :: string

text \<open>
  The class \<open>type.__new__\<close> builds: its name, the entries of the namespace other than
  the eight above, and those eight, which are absent for the class named \<open>Model\<close>.
\<close>

record klass =
  k_name :: string
  k_attrs :: attrs
  k_schema :: "schema option"

definition schema_keys :: "string list" where
  "schema_keys = [''__mappings__'', ''__table__'', ''__primary_key__'', ''__fields__'',
     ''__select__'', ''__insert__'', ''__update__'', ''__delete__'']"

text \<open>\<open>attrs.get('__table__', None) or name\<close>\<close>

definition tableName :: "string \<Rightarrow> attrs \<Rightarrow> attr" where
  "tableName cname a =
     (case map_of a ''__table__'' of
        None \<Rightarrow> ValAttr (PStr cname)
      | Some t \<Rightarrow> if attr_truthy t then t else ValAttr (PStr cname))"

definition ModelMetaclass_new :: "world \<Rightarrow> string \<Rightarrow> attrs \<Rightarrow> (error + klass) \<times> world" where
  "ModelMetaclass_new w cname a =
     (if cname = ''Model''
      then (Inr \<lparr>k_name = cname, k_attrs = a, k_schema = None\<rparr>, w)
      else
        let tn = tableName cname a;
            w1 = emit INFO (''found model: '' @ cname @ ''(table: '' @ attr_str tn @ '')'') w
        in case scan_attrs a \<lparr>mappings = [], field_keys = [], primaryKey = None\<rparr> w1 of
             (Inl e, w2) \<Rightarrow> (Inl e, w2)
           | (Inr st, w2) \<Rightarrow>
               if \<not> key_truthy (primaryKey st)
               then (Inl (RuntimeError ''Primary key not found.''), w2)
               else
                 (case pop_all (map fst (mappings st)) a of
                    Inl e \<Rightarrow> (Inl e, w2)
                  | Inr a1 \<Rightarrow>
                      let pk = the (primaryKey st);
                          escaped_fields = map (\<lambda>f. ''`'' @ f @ ''`'') (field_keys st)
                      in case set_clauses (mappings st) (field_keys st) of
                           Inl e \<Rightarrow> (Inl e, w2)
                         | Inr cs \<Rightarrow>
                             (Inr \<lparr>k_name = cname,
                                   k_attrs = [p \<leftarrow> a1. fst p \<notin> set schema_keys],
                                   k_schema = Some
                                     \<lparr>s_mappings = mappings st,
                                      s_table = tn,
                                      s_primary_key = pk,
                                      s_fields = field_keys st,
                                      s_select = ''select `'' @ pk @ ''`, '' @
                                        join '','' escaped_fields @ '' from `'' @
                                        attr_str tn @ ''`'',
                                      s_insert = ''insert into `'' @ attr_str tn @ ''` ('' @
                                        join '','' escaped_fields @ '', `'' @ pk @
                                        ''`) values ('' @
                                        create_args_string (length escaped_fields + 1) @ '')'',
                                      s_update = ''update `'' @ attr_str tn @ ''` set '' @
                                        join '','' cs @ '' where `'' @ pk @ ''`=?'',
                                      s_delete = ''delete from `'' @ attr_str tn @
                                        ''` where `'' @ pk @ ''`=?''\<rparr>\<rparr>, w2)))"

subsection \<open>The data-access functions select and execute\<close>

text \<open>
  The driver (aiomysql) is not part of the module. \<open>run d sql args\<close> is what
  \<open>cur.execute(sql, args)\<close> does on a fresh cursor: it raises, or leaves a cursor
  holding the rows of the result and \<open>rowcount\<close>. \<open>fetchmany(size)\<close> takes the first
  \<open>size\<close> rows, \<open>fetchall()\<close> all of them.
\<close>

type_synonym row = "(string \<times> pyval) list"

record cursor =
  rows :: "row list"
  rowcount :: int

record driver =
  run :: "string \<Rightarrow> pyval list \<Rightarrow> error + cursor"

text \<open>\<open>sql.replace('?', '%s')\<close>\<close>

fun replace_q :: "string \<Rightarrow> string" where
  "replace_q [] = []"
| "replace_q (c # cs) = (if c = CHR ''?'' then ''%s'' @ replace_q cs else c # replace_q cs)"

text \<open>
  \<open>select(sql, args, size=None)\<close>, with \<open>sz\<close> for \<open>size\<close>; \<open>if size:\<close> is false for \<open>None\<close> and for 0, and
  \<open>args or ()\<close> is the empty sequence when \<open>args\<close> is empty.
\<close>

definition select :: "driver \<Rightarrow> world \<Rightarrow> string \<Rightarrow> pyval list \<Rightarrow> nat option \<Rightarrow>
    (error + row list) \<times> world" where
  "select d w sql args sz =
     (let w1 = emit INFO (''SQL: '' @ sql) w
      in case run d (replace_q sql) (if args = [] then [] else args) of
           Inl e \<Rightarrow> (Inl e, w1)
         | Inr cur \<Rightarrow>
             let rs = (case sz of
                         None \<Rightarrow> rows cur
                       | Some n \<Rightarrow> if n \<noteq> 0 then take n (rows cur) else rows cur)
             in (Inr rs, emit INFO (''rows returned: '' @ str_nat (length rs)) w1))"

definition execute :: "driver \<Rightarrow> world \<Rightarrow> string \<Rightarrow> pyval list \<Rightarrow> (error + int) \<times> world" where
  "execute d w sql args =
     (let w1 = emit INFO (''SQL: '' @ sql) w
      in case run d (replace_q sql) args of
           Inl e \<Rightarrow> (Inl e, w1)
         | Inr cur \<Rightarrow> (Inr (rowcount cur), w1))"

subsection \<open>class Model\<close>

text \<open>
  An instance is a dict from attribute names to values; \<open>__setattr__\<close> makes
  \<open>setattr(self, key, value)\<close> the assignment \<open>self[key] = value\<close>, so the instance
  has no attributes of its own.

  \<open>getattr(self, key, None)\<close> looks the name up in the class of the instance and in
  its bases \<open>Model\<close>, \<open>dict\<close> and \<open>object\<close> first, and returns what it finds there:
  the bound method for \<open>items\<close>, \<open>keys\<close>, \<open>get\<close>, \<open>update\<close>, \<open>save\<close>,
  \<open>find\<close>, ..., the entries the metaclass stored (\<open>__table__\<close>, \<open>__select__\<close>, ...),
  and also \<open>None\<close> where the attribute of the class is \<open>None\<close> (\<open>__hash__\<close> of a
  dict, \<open>__doc__\<close> of a class without docstring). Only when the class has no such
  attribute does Python call \<open>__getattr__\<close>, which reads \<open>self[key]\<close> and turns the
  KeyError into an AttributeError, which \<open>getattr\<close> turns into the default \<open>None\<close>.

  What the class and its bases hold belongs to the interpreter and to the builtin
  types, so it is a parameter: \<open>ca key\<close> is the attribute found for \<open>key\<close> on the
  class, as an instance sees it, and \<open>None\<close> when there is none.
\<close>

type_synonym entity = "(string \<times> pyval) list"

type_synonym class_attrs = "string \<Rightarrow> pyval option"

definition py_getattr :: "class_attrs \<Rightarrow> entity \<Rightarrow> string \<Rightarrow> pyval" where
  "py_getattr ca self key =
     (case ca key of
        Some v \<Rightarrow> v
      | None \<Rightarrow> (case map_of self key of None \<Rightarrow> PNone | Some v \<Rightarrow> v))"

definition Model_getValue :: "class_attrs \<Rightarrow> entity \<Rightarrow> string \<Rightarrow> pyval" where
  "Model_getValue ca self key = py_getattr ca self key"

definition Model_getValueOrDefault :: "schema \<Rightarrow> class_attrs \<Rightarrow> world \<Rightarrow> entity \<Rightarrow> string \<Rightarrow>
    (error + pyval) \<times> world \<times> entity" where
  "Model_getValueOrDefault cls ca w self key =
     (let val = py_getattr ca self key
      in if val = PNone then
           (case map_of (s_mappings cls) key of
              None \<Rightarrow> (Inl (KeyError key), w, self)
            | Some fld \<Rightarrow>
                if default_v fld \<noteq> DVal PNone then
                  (let (val1, w1) = (case default_v fld of
                                       DCall g \<Rightarrow> invoke w g
                                     | DVal c \<Rightarrow> (c, w));
                       w2 = emit DEBUG (''using default value for '' @ key @ '': '' @
                              py_str val1) w1
                   in (Inr val1, w2, AList.update key val1 self))
                else (Inr val, w, self))
         else (Inr val, w, self))"

text \<open>
  \<open>cls(**kw)\<close> calls \<open>Model.__init__(self, **kw)\<close>: a keyword named \<open>self\<close> collides
  with the first parameter and raises TypeError; otherwise \<open>dict.__init__(**kw)\<close>
  makes the instance the dict \<open>kw\<close>.
\<close>

definition Model_init :: "row \<Rightarrow> error + entity" where
  "Model_init kw = (if ''self'' \<in> fst ` set kw then Inl TypeError else Inr kw)"

text \<open>\<open>find(cls, pk)\<close>\<close>

definition Model_find :: "driver \<Rightarrow> schema \<Rightarrow> world \<Rightarrow> pyval \<Rightarrow>
    (error + entity option) \<times> world" where
  "Model_find d cls w pk =
     (case select d w (s_select cls @ '' where `'' @ s_primary_key cls @ ''`=?'') [pk] (Some 1) of
        (Inl e, w1) \<Rightarrow> (Inl e, w1)
      | (Inr rs, w1) \<Rightarrow>
          if length rs = 0 then (Inr None, w1)
          else (case Model_init (hd rs) of
                  Inl e \<Rightarrow> (Inl e, w1)
                | Inr self \<Rightarrow> (Inr (Some self), w1)))"

text \<open>\<open>list(map(self.getValueOrDefault, keys))\<close>: the calls are made from left to right.\<close>

fun map_getValueOrDefault :: "schema \<Rightarrow> class_attrs \<Rightarrow> string list \<Rightarrow> world \<Rightarrow> entity \<Rightarrow>
    (error + pyval list) \<times> world \<times> entity" where
  "map_getValueOrDefault cls ca [] w self = (Inr [], w, self)"
| "map_getValueOrDefault cls ca (k # ks) w self =
     (case Model_getValueOrDefault cls ca w self k of
        (Inl e, w1, self1) \<Rightarrow> (Inl e, w1, self1)
      | (Inr v, w1, self1) \<Rightarrow>
          (case map_getValueOrDefault cls ca ks w1 self1 of
             (Inl e, w2, self2) \<Rightarrow> (Inl e, w2, self2)
           | (Inr vs, w2, self2) \<Rightarrow> (Inr (v # vs), w2, self2)))"

text \<open>The first two statements of \<open>save\<close>: the list \<open>args\<close> handed to \<open>execute\<close>.\<close>

definition save_args :: "schema \<Rightarrow> class_attrs \<Rightarrow> world \<Rightarrow> entity \<Rightarrow>
    (error + pyval list) \<times> world \<times> entity" where
  "save_args cls ca w self =
     (case map_getValueOrDefault cls ca (s_fields cls) w self of
        (Inl e, w1, self1) \<Rightarrow> (Inl e, w1, self1)
      | (Inr args, w1, self1) \<Rightarrow>
          (case Model_getValueOrDefault cls ca w1 self1 (s_primary_key cls) of
             (Inl e, w2, self2) \<Rightarrow> (Inl e, w2, self2)
           | (Inr v, w2, self2) \<Rightarrow> (Inr (args @ [v]), w2, self2)))"

text \<open>
  \<open>save(self)\<close>. \<open>logging.warn\<close> is the old name of \<open>logging.warning\<close>.
\<close>

definition Model_save :: "driver \<Rightarrow> schema \<Rightarrow> class_attrs \<Rightarrow> world \<Rightarrow> entity \<Rightarrow>
    (error + unit) \<times> world \<times> entity" where
  "Model_save d cls ca w self =
     (case save_args cls ca w self of
        (Inl e, w1, self1) \<Rightarrow> (Inl e, w1, self1)
      | (Inr args, w1, self1) \<Rightarrow>
          (case execute d w1 (s_insert cls) args of
             (Inl e, w2) \<Rightarrow> (Inl e, w2, self1)
           | (Inr n, w2) \<Rightarrow>
               if n \<noteq> 1
               then (Inr (), emit WARNING
                       (''failded to insert record: affected rows: '' @ str_int n) w2, self1)
               else (Inr (), w2, self1)))"

section \<open>Vocabulary of the statements\<close>

text \<open>
  The declared fields of a namespace, in declaration order, and those of them that are
  marked primary key and those that are not.
\<close>

fun field_items :: "attrs \<Rightarrow> (string \<times> field) list" where
  "field_items [] = []"
| "field_items ((k, FieldAttr f) # rest) = (k, f) # field_items rest"
| "field_items (_ # rest) = field_items rest"

definition pk_items :: "attrs \<Rightarrow> (string \<times> field) list" where
  "pk_items a = [p \<leftarrow> field_items a. primary_key (snd p)]"

definition ordinary_items :: "attrs \<Rightarrow> (string \<times> field) list" where
  "ordinary_items a = [p \<leftarrow> field_items a. \<not> primary_key (snd p)]"

text \<open>
  The first loop of the metaclass again, on the declared fields alone and without the
  log; \<open>scan_attrs_fields\<close> below relates it to \<open>scan_attrs\<close>.
\<close>

fun scan_fields :: "(string \<times> field) list \<Rightarrow> scan \<Rightarrow> error + scan" where
  "scan_fields [] st = Inr st"
| "scan_fields (p # rest) st =
     (let st1 = st\<lparr>mappings := AList.update (fst p) (snd p) (mappings st)\<rparr>
      in if primary_key (snd p) then
           (if key_truthy (primaryKey st)
            then Inl (RuntimeError (''Duplicate primary key for field: '' @ fst p))
            else scan_fields rest (st1\<lparr>primaryKey := Some (fst p)\<rparr>))
         else scan_fields rest (st1\<lparr>field_keys := field_keys st @ [fst p]\<rparr>))"

definition scan0 :: scan where
  "scan0 = \<lparr>mappings = [], field_keys = [], primaryKey = None\<rparr>"

text \<open>The schema of the class the metaclass returns, if it returns one with a schema.\<close>

definition derived_schema :: "world \<Rightarrow> string \<Rightarrow> attrs \<Rightarrow> schema option" where
  "derived_schema w cname a =
     (case fst (ModelMetaclass_new w cname a) of Inl e \<Rightarrow> None | Inr kl \<Rightarrow> k_schema kl)"

text \<open>A world in which nothing has been logged and no callable invoked.\<close>

definition world0 :: world where
  "world0 = \<lparr>calls = (\<lambda>g. 0), results = (\<lambda>g n. PNone), logged = []\<rparr>"

text \<open>
  The column name of a declared field: the name the descriptor declares, or the
  attribute name when it declares none (or an empty one).
\<close>

definition column_name :: "string \<times> field \<Rightarrow> string" where
  "column_name p = name_or (name (snd p)) (fst p)"

text \<open>The table name as the templates print it.\<close>

definition table_text :: "string \<Rightarrow> attrs \<Rightarrow> string" where
  "table_text cname a = attr_str (tableName cname a)"

text \<open>\<open>occurs s p\<close>: the text \<open>p\<close> occurs in \<open>s\<close>.\<close>

fun starts_with :: "string \<Rightarrow> string \<Rightarrow> bool" where
  "starts_with s [] = True"
| "starts_with [] (p # ps) = False"
| "starts_with (c # cs) (p # ps) = (c = p \<and> starts_with cs ps)"

fun occurs :: "string \<Rightarrow> string \<Rightarrow> bool" where
  "occurs [] p = (p = [])"
| "occurs (c # cs) p = (starts_with (c # cs) p \<or> occurs cs p)"

text \<open>The four templates of a schema.\<close>

definition templates :: "schema \<Rightarrow> string \<times> string \<times> string \<times> string" where
  "templates sc = (s_select sc, s_insert sc, s_update sc, s_delete sc)"

text \<open>
  One more read of \<open>key\<close>, in the world and on the instance an earlier read left.
\<close>

definition read_again :: "schema \<Rightarrow> class_attrs \<Rightarrow> string \<Rightarrow>
    (error + pyval) \<times> world \<times> entity \<Rightarrow> (error + pyval) \<times> world \<times> entity" where
  "read_again cls ca key r = Model_getValueOrDefault cls ca (fst (snd r)) (snd (snd r)) key"

subsection \<open>Example declarations\<close>

text \<open>
  A class \<open>User\<close> with table \<open>users\<close>, whose \<open>id\<close> has a callable default
  (callable 0) and whose \<open>age\<close> has the constant default 0; and variations.
\<close>

definition user_attrs :: attrs where
  "user_attrs =
     [(''__module__'', ValAttr (PStr ''models'')),
      (''__table__'', ValAttr (PStr ''users'')),
      (''id'', FieldAttr (StringField None True (DCall 0) ''varchar(50)'')),
      (''name'', FieldAttr (StringField None False (DVal PNone) ''varchar(100)'')),
      (''age'', FieldAttr (Field None ''bigint'' False (DVal (PInt 0))))]"

definition nokey_attrs :: attrs where
  "nokey_attrs =
     [(''name'', FieldAttr (StringField None False (DVal PNone) ''varchar(100)''))]"

definition twokey_attrs :: attrs where
  "twokey_attrs =
     [(''id'', FieldAttr (StringField None True (DVal PNone) ''varchar(50)'')),
      (''name'', FieldAttr (StringField None False (DVal PNone) ''varchar(100)'')),
      (''uid'', FieldAttr (StringField None True (DVal PNone) ''varchar(50)''))]"

definition idonly_attrs :: attrs where
  "idonly_attrs =
     [(''__doc__'', ValAttr PNone),
      (''id'', FieldAttr (StringField None True (DVal PNone) ''varchar(50)''))]"

definition model_attrs :: attrs where
  "model_attrs =
     [(''__module__'', ValAttr (PStr ''orm'')),
      (''__init__'', ObjAttr ''<function Model.__init__>''),
      (''getValue'', ObjAttr ''<function Model.getValue>''),
      (''getValueOrDefault'', ObjAttr ''<function Model.getValueOrDefault>'')]"

definition nick_attrs :: attrs where
  "nick_attrs =
     [(''id'', FieldAttr (StringField None True (DVal PNone) ''varchar(50)'')),
      (''nick'', FieldAttr (StringField (Some ''nickname'') False (DVal PNone) ''varchar(50)''))]"

definition round_trip_attrs :: "field \<Rightarrow> field \<Rightarrow> field \<Rightarrow> attrs" where
  "round_trip_attrs fid fname fage =
     [(''id'', FieldAttr fid), (''name'', FieldAttr fname), (''age'', FieldAttr fage)]"

definition methods_attrs :: attrs where
  "methods_attrs =
     [(''__module__'', ValAttr (PStr ''other'')),
      (''id'', FieldAttr (StringField None True (DCall 0) ''varchar(50)'')),
      (''greet'', ObjAttr ''<function greet>''),
      (''name'', FieldAttr (StringField None False (DVal PNone) ''varchar(100)'')),
      (''age'', FieldAttr (Field None ''bigint'' False (DVal (PInt 0)))),
      (''limit'', ValAttr (PInt 10))]"

text \<open>
  A world with a log line already, in which every callable has been invoked three
  times and returns the number of its earlier invocations.
\<close>

definition world1 :: world where
  "world1 = \<lparr>calls = (\<lambda>g. 3), results = (\<lambda>g n. PInt (int n)),
     logged = [(INFO, ''create database connection pool...'')]\<rparr>"

text \<open>The schema derived for \<open>User\<close> (lemma \<open>user_schema_eq\<close>).\<close>

definition user_schema_v :: schema where
  "user_schema_v =
     \<lparr>s_mappings = [(''id'', StringField None True (DCall 0) ''varchar(50)''),
        (''name'', StringField None False (DVal PNone) ''varchar(100)''),
        (''age'', Field None ''bigint'' False (DVal (PInt 0)))],
      s_table = ValAttr (PStr ''users''),
      s_primary_key = ''id'',
      s_fields = [''name'', ''age''],
      s_select = ''select `id`, `name`,`age` from `users`'',
      s_insert = ''insert into `users` (`name`,`age`, `id`) values (?,?,?)'',
      s_update = ''update `users` set `name`=?,`age`=? where `id`=?'',
      s_delete = ''delete from `users` where `id`=?''\<rparr>"

text \<open>
  Some of the attributes of the class \<open>User\<close> and of its bases, as an instance sees
  them: methods of \<open>dict\<close> and of \<open>Model\<close>, \<open>__hash__\<close> (which is \<open>None\<close> for a
  dict) and two of the entries the metaclass stored.
\<close>

definition user_class_attrs :: class_attrs where
  "user_class_attrs key =
     (if key \<in> set [''items'', ''keys'', ''values'', ''get'', ''update'', ''pop'', ''copy'',
          ''clear'', ''save'', ''find'', ''getValue'', ''getValueOrDefault'']
      then Some (PObj (''<bound method '' @ key @ ''>''))
      else if key = ''__hash__'' then Some PNone
      else if key = ''__table__'' then Some (PStr ''users'')
      else if key = ''__primary_key__'' then Some (PStr ''id'')
      else None)"

text \<open>A world whose callables return \<open>None\<close> when first invoked and 7 afterwards.\<close>

definition world_none_first :: world where
  "world_none_first =
     \<lparr>calls = (\<lambda>g. 0), results = (\<lambda>g n. if n = 0 then PNone else PInt 7), logged = []\<rparr>"

text \<open>
  A driver that knows the select-by-key and the insert statement of \<open>users\<close>: the
  first returns the rows \<open>tbl\<close>, the second reports \<open>n\<close> affected rows.
\<close>

definition users_driver :: "row list \<Rightarrow> int \<Rightarrow> driver" where
  "users_driver tbl n =
     \<lparr>run = (\<lambda>sql args.
        if sql = ''select `id`, `name`,`age` from `users` where `id`=%s''
        then Inr \<lparr>rows = tbl, rowcount = int (length tbl)\<rparr>
        else if sql = ''insert into `users` (`name`,`age`, `id`) values (%s,%s,%s)''
        then Inr \<lparr>rows = [], rowcount = n\<rparr>
        else Inl (DriverError ''unknown statement''))\<rparr>"



text \<open>An instance with a name and nothing else.\<close>

definition ann :: entity where
  "ann = [(''name'', PStr ''Ann'')]"

section \<open>Properties of the metaclass\<close>

lemmas example_defs = user_attrs_def nokey_attrs_def twokey_attrs_def idonly_attrs_def
  model_attrs_def nick_attrs_def StringField_def Field_def pk_items_def ordinary_items_def

lemma scan_attrs_fields: "fst (scan_attrs a st w) = scan_fields (field_items a) st"
  by (induction a arbitrary: st w rule: field_items.induct) (simp_all add: Let_def)

lemma scan_fields_mappings:
  "scan_fields xs st = Inr st' \<Longrightarrow>
     mappings st' = fold (\<lambda>p. AList.update (fst p) (snd p)) xs (mappings st)"
  by (induction xs arbitrary: st) (auto simp: Let_def split: if_splits)

lemma scan_fields_keys:
  "scan_fields xs st = Inr st' \<Longrightarrow>
     field_keys st' = field_keys st @ map fst [p \<leftarrow> xs. \<not> primary_key (snd p)]"
  by (induction xs arbitrary: st) (auto simp: Let_def split: if_splits)

lemma fold_update_keys:
  "fst ` set (fold (\<lambda>p. AList.update (fst p) (snd p)) xs m) = fst ` set m \<union> fst ` set xs"
  by (induction xs arbitrary: m) (auto simp: dom_update)

lemma fold_update_distinct:
  "distinct (map fst m) \<Longrightarrow> distinct (map fst (fold (\<lambda>p. AList.update (fst p) (snd p)) xs m))"
  by (induction xs arbitrary: m) (auto simp: distinct_update)

lemma fold_update_fresh:
  "distinct (map fst xs) \<Longrightarrow> fst ` set xs \<inter> fst ` set m = {} \<Longrightarrow>
     fold (\<lambda>p. AList.update (fst p) (snd p)) xs m = m @ xs"
proof (induction xs arbitrary: m)
  case Nil
  then show ?case by simp
next
  case (Cons p xs)
  have fresh: "fst p \<notin> fst ` set m" using Cons.prems(2) by auto
  have upd: "AList.update (fst p) (snd p) m = m @ [p]"
    using fresh by (induction m) auto
  have "fold (\<lambda>p. AList.update (fst p) (snd p)) xs (m @ [p]) = (m @ [p]) @ xs"
    using Cons.prems by (intro Cons.IH) auto
  then show ?case by (simp add: upd)
qed

lemma field_items_keys: "fst ` set (field_items a) \<subseteq> fst ` set a"
  by (induction a rule: field_items.induct) auto

lemma field_items_distinct: "distinct (map fst a) \<Longrightarrow> distinct (map fst (field_items a))"
proof (induction a rule: field_items.induct)
  case (2 k f rest)
  then show ?case using field_items_keys [of rest] by auto
qed auto

lemma scan_fields_pk_none:
  "primaryKey st = None \<Longrightarrow> \<forall>p \<in> set xs. \<not> primary_key (snd p) \<Longrightarrow>
     \<exists>st'. scan_fields xs st = Inr st' \<and> primaryKey st' = None"
  by (induction xs arbitrary: st) (auto simp: Let_def)

lemma scan_fields_pk_kept:
  "primaryKey st = Some k0 \<Longrightarrow> \<forall>p \<in> set xs. \<not> primary_key (snd p) \<Longrightarrow>
     \<exists>st'. scan_fields xs st = Inr st' \<and> primaryKey st' = Some k0"
  by (induction xs arbitrary: st) (auto simp: Let_def)

lemma scan_fields_dup:
  "primaryKey st = Some k0 \<Longrightarrow> k0 \<noteq> [] \<Longrightarrow> [p \<leftarrow> xs. primary_key (snd p)] = q # qs \<Longrightarrow>
     scan_fields xs st = Inl (RuntimeError (''Duplicate primary key for field: '' @ fst q))"
  by (induction xs arbitrary: st) (auto simp: Let_def split: if_splits)

lemma scan_fields_first_pk:
  "primaryKey st = None \<Longrightarrow> [p \<leftarrow> xs. primary_key (snd p)] = q # qs \<Longrightarrow>
     \<exists>ys zs st1. xs = ys @ q # zs \<and> (\<forall>p \<in> set ys. \<not> primary_key (snd p)) \<and>
       [p \<leftarrow> zs. primary_key (snd p)] = qs \<and> primaryKey st1 = Some (fst q) \<and>
       scan_fields xs st = scan_fields zs st1"
proof (induction xs arbitrary: st)
  case Nil
  then show ?case by simp
next
  case (Cons p xs)
  show ?case
  proof (cases "primary_key (snd p)")
    case True
    then have "p = q" "[p \<leftarrow> xs. primary_key (snd p)] = qs" using Cons.prems(2) by auto
    then have "p # xs = [] @ q # xs \<and> (\<forall>p \<in> set []. \<not> primary_key (snd p)) \<and>
       [p \<leftarrow> xs. primary_key (snd p)] = qs \<and>
       primaryKey (st\<lparr>mappings := AList.update (fst p) (snd p) (mappings st),
                       primaryKey := Some (fst p)\<rparr>) = Some (fst q) \<and>
       scan_fields (p # xs) st =
         scan_fields xs (st\<lparr>mappings := AList.update (fst p) (snd p) (mappings st),
                       primaryKey := Some (fst p)\<rparr>)"
      using True Cons.prems(1) by (simp add: Let_def)
    then show ?thesis by blast
  next
    case False
    let ?st = "st\<lparr>mappings := AList.update (fst p) (snd p) (mappings st),
                  field_keys := field_keys st @ [fst p]\<rparr>"
    have "primaryKey ?st = None" using Cons.prems(1) by simp
    moreover have "[p \<leftarrow> xs. primary_key (snd p)] = q # qs" using False Cons.prems(2) by simp
    ultimately obtain ys zs st1 where
      "xs = ys @ q # zs" "\<forall>p \<in> set ys. \<not> primary_key (snd p)"
      "[p \<leftarrow> zs. primary_key (snd p)] = qs" "primaryKey st1 = Some (fst q)"
      "scan_fields xs ?st = scan_fields zs st1"
      using Cons.IH [of ?st] by blast
    then have "p # xs = (p # ys) @ q # zs \<and> (\<forall>p \<in> set (p # ys). \<not> primary_key (snd p)) \<and>
       [p \<leftarrow> zs. primary_key (snd p)] = qs \<and> primaryKey st1 = Some (fst q) \<and>
       scan_fields (p # xs) st = scan_fields zs st1"
      using False by (simp add: Let_def)
    then show ?thesis by blast
  qed
qed

lemma pop_all_ok:
  "distinct ks \<Longrightarrow> set ks \<subseteq> fst ` set a \<Longrightarrow> \<exists>a'. pop_all ks a = Inr a'"
proof (induction ks arbitrary: a)
  case Nil
  then show ?case by simp
next
  case (Cons k ks)
  have "set ks \<subseteq> fst ` set (AList.delete k a)"
  proof
    fix x assume x: "x \<in> set ks"
    then have "x \<noteq> k" "x \<in> fst ` set a" using Cons.prems by auto
    then show "x \<in> fst ` set (AList.delete k a)"
      by (force simp: AList.delete_eq)
  qed
  then show ?case using Cons by simp
qed

lemma set_clauses_ok:
  "set fs \<subseteq> fst ` set m \<Longrightarrow>
     set_clauses m fs =
       Inr (map (\<lambda>f. ''`'' @ name_or (name (the (map_of m f))) f @ ''`=?'') fs)"
proof (induction fs)
  case Nil
  then show ?case by simp
next
  case (Cons f fs)
  then obtain fld where "map_of m f = Some fld"
    by (metis list.set_intros(1) subsetD weak_map_of_SomeI map_of_eq_None_iff not_Some_eq)
  then show ?case using Cons by simp
qed

lemma scan0_mappings_keys:
  assumes "scan_fields (field_items a) scan0 = Inr st"
  shows "fst ` set (mappings st) = fst ` set (field_items a)"
    and "distinct (map fst (mappings st))"
    and "set (field_keys st) \<subseteq> fst ` set (mappings st)"
proof -
  have m: "mappings st = fold (\<lambda>p. AList.update (fst p) (snd p)) (field_items a) []"
    using scan_fields_mappings [OF assms] by (simp add: scan0_def)
  show k: "fst ` set (mappings st) = fst ` set (field_items a)"
    by (simp add: m fold_update_keys)
  show "distinct (map fst (mappings st))"
    by (simp add: m fold_update_distinct)
  have "field_keys st = map fst [p \<leftarrow> field_items a. \<not> primary_key (snd p)]"
    using scan_fields_keys [OF assms] by (simp add: scan0_def)
  then show "set (field_keys st) \<subseteq> fst ` set (mappings st)"
    unfolding k by auto
qed

text \<open>What the metaclass returns for a class that is not named Model.\<close>

lemma new_scan_error:
  assumes "cname \<noteq> ''Model''" "scan_fields (field_items a) scan0 = Inl e"
  shows "fst (ModelMetaclass_new w cname a) = Inl e"
proof -
  have sc: "fst (scan_attrs a scan0 w') = Inl e" for w'
    using assms(2) by (simp add: scan_attrs_fields)
  obtain r w2 where r: "scan_attrs a scan0
      (emit INFO (''found model: '' @ cname @ ''(table: '' @ attr_str (tableName cname a) @ '')'') w)
      = (r, w2)" by fastforce
  then have r': "r = Inl e" using sc by (metis fst_conv)
  show ?thesis
    using assms(1) r by (simp add: ModelMetaclass_new_def Let_def scan0_def [symmetric] r')
qed

lemma new_no_pk:
  assumes "cname \<noteq> ''Model''" "scan_fields (field_items a) scan0 = Inr st"
    "\<not> key_truthy (primaryKey st)"
  shows "fst (ModelMetaclass_new w cname a) = Inl (RuntimeError ''Primary key not found.'')"
proof -
  have sc: "fst (scan_attrs a scan0 w') = Inr st" for w'
    using assms(2) by (simp add: scan_attrs_fields)
  obtain r w2 where r: "scan_attrs a scan0
      (emit INFO (''found model: '' @ cname @ ''(table: '' @ attr_str (tableName cname a) @ '')'') w)
      = (r, w2)" by fastforce
  then have r': "r = Inr st" using sc by (metis fst_conv)
  show ?thesis
    using assms(1,3) r by (simp add: ModelMetaclass_new_def Let_def scan0_def [symmetric] r')
qed

lemma new_mapped:
  assumes "cname \<noteq> ''Model''" "scan_fields (field_items a) scan0 = Inr st"
    "primaryKey st = Some pk" "pk \<noteq> []"
  shows "\<exists>kl sc. fst (ModelMetaclass_new w cname a) = Inr kl \<and> k_schema kl = Some sc \<and>
     k_name kl = cname \<and>
     s_mappings sc = mappings st \<and> s_table sc = tableName cname a \<and>
     s_primary_key sc = pk \<and> s_fields sc = field_keys st \<and>
     s_select sc = ''select `'' @ pk @ ''`, '' @
        join '','' (map (\<lambda>f. ''`'' @ f @ ''`'') (field_keys st)) @ '' from `'' @
        attr_str (tableName cname a) @ ''`'' \<and>
     s_insert sc = ''insert into `'' @ attr_str (tableName cname a) @ ''` ('' @
        join '','' (map (\<lambda>f. ''`'' @ f @ ''`'') (field_keys st)) @ '', `'' @ pk @
        ''`) values ('' @ create_args_string (length (field_keys st) + 1) @ '')'' \<and>
     s_update sc = ''update `'' @ attr_str (tableName cname a) @ ''` set '' @
        join '','' (map (\<lambda>f. ''`'' @ name_or (name (the (map_of (mappings st) f))) f @ ''`=?'')
          (field_keys st)) @ '' where `'' @ pk @ ''`=?'' \<and>
     s_delete sc = ''delete from `'' @ attr_str (tableName cname a) @ ''` where `'' @ pk @ ''`=?''"
proof -
  have sc: "fst (scan_attrs a scan0 w') = Inr st" for w'
    using assms(2) by (simp add: scan_attrs_fields)
  have "set (map fst (mappings st)) \<subseteq> fst ` set a"
    using scan0_mappings_keys(1) [OF assms(2)] field_items_keys [of a] by auto
  then obtain a1 where pop: "pop_all (map fst (mappings st)) a = Inr a1"
    using pop_all_ok [of "map fst (mappings st)" a] scan0_mappings_keys(2) [OF assms(2)]
    by blast
  have cl: "set_clauses (mappings st) (field_keys st) =
      Inr (map (\<lambda>f. ''`'' @ name_or (name (the (map_of (mappings st) f))) f @ ''`=?'')
        (field_keys st))"
    by (rule set_clauses_ok) (rule scan0_mappings_keys(3) [OF assms(2)])
  obtain r w2 where r: "scan_attrs a scan0
      (emit INFO (''found model: '' @ cname @ ''(table: '' @ attr_str (tableName cname a) @ '')'') w)
      = (r, w2)" by fastforce
  then have r': "r = Inr st" using sc by (metis fst_conv)
  show ?thesis
    using assms(1,3,4) pop cl r
    by (simp add: ModelMetaclass_new_def Let_def scan0_def [symmetric] r')
qed

lemma derived_schemaD:
  assumes "derived_schema w cname a = Some sc"
  shows "\<exists>st. cname \<noteq> ''Model'' \<and> scan_fields (field_items a) scan0 = Inr st \<and>
     primaryKey st = Some (s_primary_key sc) \<and> s_primary_key sc \<noteq> [] \<and>
     s_mappings sc = mappings st \<and> s_table sc = tableName cname a \<and>
     s_fields sc = field_keys st \<and>
     s_select sc = ''select `'' @ s_primary_key sc @ ''`, '' @
        join '','' (map (\<lambda>f. ''`'' @ f @ ''`'') (field_keys st)) @ '' from `'' @
        attr_str (tableName cname a) @ ''`'' \<and>
     s_insert sc = ''insert into `'' @ attr_str (tableName cname a) @ ''` ('' @
        join '','' (map (\<lambda>f. ''`'' @ f @ ''`'') (field_keys st)) @ '', `'' @
        s_primary_key sc @
        ''`) values ('' @ create_args_string (length (field_keys st) + 1) @ '')'' \<and>
     s_update sc = ''update `'' @ attr_str (tableName cname a) @ ''` set '' @
        join '','' (map (\<lambda>f. ''`'' @ name_or (name (the (map_of (mappings st) f))) f @ ''`=?'')
          (field_keys st)) @ '' where `'' @ s_primary_key sc @ ''`=?'' \<and>
     s_delete sc = ''delete from `'' @ attr_str (tableName cname a) @ ''` where `'' @
        s_primary_key sc @ ''`=?''"
proof -
  have nm: "cname \<noteq> ''Model''"
    using assms by (auto simp: derived_schema_def ModelMetaclass_new_def)
  show ?thesis
  proof (cases "scan_fields (field_items a) scan0")
    case (Inl e)
    then show ?thesis using assms new_scan_error [OF nm Inl, of w]
      by (simp add: derived_schema_def)
  next
    case (Inr st)
    show ?thesis
    proof (cases "key_truthy (primaryKey st)")
      case False
      then show ?thesis using assms new_no_pk [OF nm Inr False, of w]
        by (simp add: derived_schema_def)
    next
      case True
      then obtain pk where pk: "primaryKey st = Some pk" "pk \<noteq> []"
        by (cases "primaryKey st") auto
      from new_mapped [OF nm Inr pk, of w] assms
      show ?thesis using nm Inr pk
        by (auto simp: derived_schema_def)
    qed
  qed
qed

lemma starts_with_append: "starts_with (p @ s) p"
  by (induction p) auto

lemma starts_with_occurs: "starts_with s p \<Longrightarrow> occurs s p"
  by (cases s; cases p) auto

lemma occurs_append: "occurs (a @ p @ b) p"
proof (induction a)
  case Nil
  show ?case using starts_with_occurs [OF starts_with_append [of p b]] by simp
next
  case (Cons c a)
  then show ?case by simp
qed

lemma join_member: "x \<in> set xs \<Longrightarrow> \<exists>a b. join sep xs = a @ x @ b"
proof (induction sep xs rule: join.induct)
  case (1 sep)
  then show ?case by simp
next
  case (2 sep y)
  then have "join sep [y] = [] @ x @ []" by simp
  then show ?case by blast
next
  case (3 sep y z zs)
  show ?case
  proof (cases "x = y")
    case True
    then have "join sep (y # z # zs) = [] @ x @ (sep @ join sep (z # zs))" by simp
    then show ?thesis by blast
  next
    case False
    then obtain a b where "join sep (z # zs) = a @ x @ b" using 3 by auto
    then have "join sep (y # z # zs) = (y @ sep @ a) @ x @ b" by simp
    then show ?thesis by blast
  qed
qed

lemma derived_scan:
  assumes "derived_schema w cname a = Some sc"
  shows "scan_fields (field_items a) scan0 =
     Inr \<lparr>mappings = s_mappings sc, field_keys = s_fields sc,
          primaryKey = Some (s_primary_key sc)\<rparr>"
proof -
  from derived_schemaD [OF assms] obtain st where
    "scan_fields (field_items a) scan0 = Inr st" "primaryKey st = Some (s_primary_key sc)"
    "s_mappings sc = mappings st" "s_fields sc = field_keys st"
    by (elim exE conjE)
  then show ?thesis by (cases st) simp
qed

lemma derived_templates:
  assumes "derived_schema w cname a = Some sc"
  shows "cname \<noteq> ''Model''" and "s_primary_key sc \<noteq> []"
    and "s_table sc = tableName cname a"
    and "s_select sc = ''select `'' @ s_primary_key sc @ ''`, '' @
        join '','' (map (\<lambda>f. ''`'' @ f @ ''`'') (s_fields sc)) @ '' from `'' @
        attr_str (tableName cname a) @ ''`''"
    and "s_insert sc = ''insert into `'' @ attr_str (tableName cname a) @ ''` ('' @
        join '','' (map (\<lambda>f. ''`'' @ f @ ''`'') (s_fields sc)) @ '', `'' @
        s_primary_key sc @
        ''`) values ('' @ create_args_string (length (s_fields sc) + 1) @ '')''"
    and "s_delete sc = ''delete from `'' @ attr_str (tableName cname a) @ ''` where `'' @
        s_primary_key sc @ ''`=?''"
    and "s_update sc = ''update `'' @ attr_str (tableName cname a) @ ''` set '' @
        join '','' (map (\<lambda>f. ''`'' @ name_or (name (the (map_of (s_mappings sc) f))) f @ ''`=?'')
          (s_fields sc)) @ '' where `'' @ s_primary_key sc @ ''`=?''"
  using derived_schemaD [OF assms] by auto

lemma derived_fields:
  assumes "derived_schema w cname a = Some sc"
  shows "s_fields sc = map fst (ordinary_items a)"
proof -
  show ?thesis using scan_fields_keys [OF derived_scan [OF assms]]
    by (simp add: scan0_def ordinary_items_def)
qed

lemma scan_fields_primaryKey:
  "scan_fields xs st = Inr st' \<Longrightarrow>
     primaryKey st' = (if [p \<leftarrow> xs. primary_key (snd p)] = [] then primaryKey st
                       else Some (fst (last [p \<leftarrow> xs. primary_key (snd p)])))"
  by (induction xs arbitrary: st) (auto simp: Let_def split: if_splits)

lemma derived_primary_key:
  assumes "derived_schema w cname a = Some sc"
  shows "pk_items a \<noteq> [] \<and> s_primary_key sc = fst (last (pk_items a))"
proof -
  show ?thesis using scan_fields_primaryKey [OF derived_scan [OF assms]]
    by (auto simp: scan0_def pk_items_def split: if_splits)
qed

lemma derived_mappings:
  assumes "derived_schema w cname a = Some sc" "distinct (map fst a)"
  shows "s_mappings sc = field_items a"
proof -
  have "s_mappings sc = fold (\<lambda>p. AList.update (fst p) (snd p)) (field_items a) []"
    using scan_fields_mappings [OF derived_scan [OF assms(1)]] by (simp add: scan0_def)
  also have "\<dots> = [] @ field_items a"
    by (rule fold_update_fresh) (simp_all add: field_items_distinct assms(2))
  finally show ?thesis by simp
qed

lemma derived_update:
  assumes "derived_schema w cname a = Some sc" "distinct (map fst a)"
  shows "s_update sc = ''update `'' @ table_text cname a @ ''` set '' @
      join '','' (map (\<lambda>p. ''`'' @ column_name p @ ''`=?'') (ordinary_items a)) @
      '' where `'' @ s_primary_key sc @ ''`=?''"
proof -
  note m = derived_mappings [OF assms]
  note k = derived_fields [OF assms(1)]
  have d: "distinct (map fst (field_items a))"
    by (simp add: field_items_distinct assms(2))
  have "map_of (field_items a) (fst p) = Some (snd p)" if "p \<in> set (ordinary_items a)" for p
    using that d by (simp add: ordinary_items_def)
  then have eq: "map (\<lambda>f. ''`'' @ name_or (name (the (map_of (field_items a) f))) f @ ''`=?'')
        (map fst (ordinary_items a)) =
      map (\<lambda>p. ''`'' @ column_name p @ ''`=?'') (ordinary_items a)"
    by (simp add: column_name_def)
  show ?thesis
    using derived_templates(7) [OF assms(1)] unfolding m k eq table_text_def .
qed

lemma derived_schemaI:
  assumes "cname \<noteq> ''Model''" "scan_fields (field_items a) scan0 = Inr st"
    "primaryKey st = Some pk" "pk \<noteq> []"
  shows "\<exists>sc. derived_schema w cname a = Some sc \<and> s_primary_key sc = pk \<and>
    s_fields sc = field_keys st \<and> s_mappings sc = mappings st"
  using new_mapped [OF assms, of w] by (auto simp: derived_schema_def)

lemma user_schema:
  "\<exists>sc. derived_schema world0 ''User'' user_attrs = Some sc"
proof -
  have "scan_fields (field_items user_attrs) scan0 =
      Inr \<lparr>mappings = [(''id'', StringField None True (DCall 0) ''varchar(50)''),
             (''name'', StringField None False (DVal PNone) ''varchar(100)''),
             (''age'', Field None ''bigint'' False (DVal (PInt 0)))],
           field_keys = [''name'', ''age''], primaryKey = Some ''id''\<rparr>"
    by (simp add: example_defs scan0_def Let_def)
  from derived_schemaI [OF _ this, of "''User''" "''id''" world0] show ?thesis by auto
qed

lemma nick_schema:
  "\<exists>sc. derived_schema world0 ''User'' nick_attrs = Some sc"
proof -
  have "scan_fields (field_items nick_attrs) scan0 =
      Inr \<lparr>mappings = [(''id'', StringField None True (DVal PNone) ''varchar(50)''),
             (''nick'', StringField (Some ''nickname'') False (DVal PNone) ''varchar(50)'')],
           field_keys = [''nick''], primaryKey = Some ''id''\<rparr>"
    by (simp add: example_defs scan0_def Let_def)
  from derived_schemaI [OF _ this, of "''User''" "''id''" world0] show ?thesis by auto
qed

lemma user_schema_eq: "derived_schema world0 ''User'' user_attrs = Some user_schema_v"
  by (simp add: derived_schema_def ModelMetaclass_new_def example_defs user_schema_v_def
      Let_def tableName_def emit_def create_args_string_def name_or_def)

lemma derived_keys:
  assumes "derived_schema w cname a = Some sc"
  shows "set (s_fields sc) \<subseteq> fst ` set (s_mappings sc)"
    and "s_primary_key sc \<in> fst ` set (s_mappings sc)"
proof -
  note sc = derived_scan [OF assms]
  show "set (s_fields sc) \<subseteq> fst ` set (s_mappings sc)"
    using scan0_mappings_keys(3) [OF sc] by simp
  have "last (pk_items a) \<in> set (field_items a)"
    using derived_primary_key [OF assms] last_in_set [of "pk_items a"]
    by (auto simp: pk_items_def)
  then show "s_primary_key sc \<in> fst ` set (s_mappings sc)"
    using scan0_mappings_keys(1) [OF sc] derived_primary_key [OF assms] by auto
qed

lemma derived_distinct:
  assumes "derived_schema w cname a = Some sc" and "distinct (map fst a)"
  shows "distinct (s_fields sc)" and "s_primary_key sc \<notin> set (s_fields sc)"
proof -
  have d: "distinct (map fst (field_items a))" by (simp add: field_items_distinct assms(2))
  show "distinct (s_fields sc)"
    unfolding derived_fields [OF assms(1)] ordinary_items_def
    by (rule distinct_map_filter) (rule d)
  have q: "last (pk_items a) \<in> set (field_items a)" "primary_key (snd (last (pk_items a)))"
    using derived_primary_key [OF assms(1)] last_in_set [of "pk_items a"]
    by (auto simp: pk_items_def)
  show "s_primary_key sc \<notin> set (s_fields sc)"
  proof
    assume "s_primary_key sc \<in> set (s_fields sc)"
    then obtain p where p: "p \<in> set (field_items a)" "\<not> primary_key (snd p)"
        "fst p = fst (last (pk_items a))"
      using derived_primary_key [OF assms(1)]
      by (auto simp: derived_fields [OF assms(1)] ordinary_items_def)
    have "inj_on fst (set (field_items a))" using d by (simp add: distinct_map)
    then have "p = last (pk_items a)" using p(1,3) q(1) by (auto dest: inj_onD)
    then show False using p(2) q(2) by simp
  qed
qed




section \<open>Properties of the instance operations\<close>

lemma py_getattr_class: "ca key = Some v \<Longrightarrow> py_getattr ca self key = v"
  by (simp add: py_getattr_def)

lemma py_getattr_dict:
  "ca key = None \<Longrightarrow>
     py_getattr ca self key = (case map_of self key of None \<Rightarrow> PNone | Some v \<Rightarrow> v)"
  by (simp add: py_getattr_def)

lemma py_getattr_update: "ca key = None \<Longrightarrow> py_getattr ca (AList.update key v self) key = v"
  by (simp add: py_getattr_def update_conv')

lemma py_getattr_update_other:
  "k \<noteq> key \<Longrightarrow> py_getattr ca (AList.update key v self) k = py_getattr ca self k"
  by (simp add: py_getattr_def update_conv' split: option.splits)

lemma gvod_set:
  "py_getattr ca self key \<noteq> PNone \<Longrightarrow>
     Model_getValueOrDefault cls ca w self key = (Inr (py_getattr ca self key), w, self)"
  by (simp add: Model_getValueOrDefault_def)

text \<open>
  A key that names an attribute of the class: the read returns that attribute, whatever
  the instance stores and whatever default the field declares.
\<close>

lemma gvod_class_attribute:
  "ca key = Some v \<Longrightarrow> v \<noteq> PNone \<Longrightarrow>
     Model_getValueOrDefault cls ca w self key = (Inr v, w, self)"
  by (simp add: Model_getValueOrDefault_def py_getattr_def)

text \<open>
  A key whose attribute on the class is \<open>None\<close> (\<open>__hash__\<close>, say): the read never
  sees what is stored, and resolves the default at every call.
\<close>

lemma gvod_class_attribute_None:
  "ca key = Some PNone \<Longrightarrow> map_of (s_mappings cls) key = Some fld \<Longrightarrow>
     default_v fld = DCall g \<Longrightarrow>
     fst (Model_getValueOrDefault cls ca w self key) = Inr (results w g (calls w g)) \<and>
     calls (fst (snd (Model_getValueOrDefault cls ca w self key))) g = calls w g + 1"
  by (simp add: Model_getValueOrDefault_def py_getattr_def invoke_def emit_def)

text \<open>A first row with a column named \<open>self\<close>: \<open>find\<close> raises TypeError.\<close>

lemma find_row_named_self:
  assumes "run d (replace_q (s_select cls @ '' where `'' @ s_primary_key cls @ ''`=?'')) [pk]
      = Inr cur"
    and "rows cur = r # rest" and "''self'' \<in> fst ` set r"
  shows "fst (Model_find d cls w pk) = Inl TypeError"
  using assms by (simp add: Model_find_def select_def Let_def Model_init_def)

lemma read_again_fix:
  assumes "ca key = None" and "py_getattr ca self key = PNone"
    and "map_of (s_mappings cls) key = Some fld"
    and "default_v fld \<noteq> DVal PNone"
    and "fst (Model_getValueOrDefault cls ca w self key) \<noteq> Inr PNone"
  shows "read_again cls ca key (Model_getValueOrDefault cls ca w self key) =
     Model_getValueOrDefault cls ca w self key"
proof -
  obtain v w1 where r: "Model_getValueOrDefault cls ca w self key =
      (Inr v, w1, AList.update key v self)"
    using assms(2,3,4)
    by (cases "default_v fld") (auto simp: Model_getValueOrDefault_def Let_def invoke_def)
  have "v \<noteq> PNone" using r assms(5) by auto
  have u: "py_getattr ca (AList.update key v self) key = v"
    using assms(1) by (rule py_getattr_update)
  then have "py_getattr ca (AList.update key v self) key \<noteq> PNone"
    using \<open>v \<noteq> PNone\<close> by simp
  from gvod_set [OF this, of cls w1] show ?thesis
    by (simp add: read_again_def r u)
qed

lemma gvod_ok:
  assumes "map_of (s_mappings cls) key = Some fld"
  shows "\<exists>v w' s'. Model_getValueOrDefault cls ca w self key = (Inr v, w', s') \<and>
       (ca key = None \<longrightarrow> py_getattr ca s' key = v) \<and>
       (\<forall>k. k \<noteq> key \<or> py_getattr ca self k \<noteq> PNone \<longrightarrow>
          py_getattr ca s' k = py_getattr ca self k)"
proof (cases "py_getattr ca self key = PNone")
  case False
  then show ?thesis using gvod_set [OF False, of cls w] by simp
next
  case True
  show ?thesis
  proof (cases "default_v fld = DVal PNone")
    case d: True
    then have "Model_getValueOrDefault cls ca w self key = (Inr PNone, w, self)"
      using True assms by (simp add: Model_getValueOrDefault_def)
    then show ?thesis using True by simp
  next
    case d: False
    then obtain v w1 where r: "Model_getValueOrDefault cls ca w self key =
        (Inr v, w1, AList.update key v self)"
      using True assms
      by (cases "default_v fld") (auto simp: Model_getValueOrDefault_def Let_def invoke_def)
    show ?thesis using True
      by (simp add: r py_getattr_update py_getattr_update_other)
  qed
qed

lemma map_gvod_ok:
  "set ks \<subseteq> fst ` set (s_mappings cls) \<Longrightarrow>
     \<exists>vs w' s'. map_getValueOrDefault cls ca ks w self = (Inr vs, w', s') \<and>
       length vs = length ks \<and>
       (distinct ks \<and> (\<forall>k \<in> set ks. ca k = None) \<longrightarrow>
          (\<forall>i < length ks. vs ! i = py_getattr ca s' (ks ! i))) \<and>
       (\<forall>k. k \<notin> set ks \<or> py_getattr ca self k \<noteq> PNone \<longrightarrow>
          py_getattr ca s' k = py_getattr ca self k)"
proof (induction ks arbitrary: w self)
  case Nil
  then show ?case by simp
next
  case (Cons k ks)
  from Cons.prems obtain fld where "map_of (s_mappings cls) k = Some fld"
    by (metis list.set_intros(1) subsetD map_of_eq_None_iff not_Some_eq)
  from gvod_ok [OF this, of ca w self] obtain v w1 s1 where
    1: "Model_getValueOrDefault cls ca w self k = (Inr v, w1, s1)"
      "ca k = None \<longrightarrow> py_getattr ca s1 k = v"
      "\<forall>k'. k' \<noteq> k \<or> py_getattr ca self k' \<noteq> PNone \<longrightarrow>
         py_getattr ca s1 k' = py_getattr ca self k'"
    by (elim exE conjE)
  have "set ks \<subseteq> fst ` set (s_mappings cls)" using Cons.prems by simp
  from Cons.IH [OF this, of w1 s1] obtain vs w2 s2 where
    2: "map_getValueOrDefault cls ca ks w1 s1 = (Inr vs, w2, s2)" "length vs = length ks"
      "distinct ks \<and> (\<forall>k \<in> set ks. ca k = None) \<longrightarrow>
         (\<forall>i < length ks. vs ! i = py_getattr ca s2 (ks ! i))"
      "\<forall>k'. k' \<notin> set ks \<or> py_getattr ca s1 k' \<noteq> PNone \<longrightarrow>
         py_getattr ca s2 k' = py_getattr ca s1 k'"
    by (elim exE conjE)
  have r: "map_getValueOrDefault cls ca (k # ks) w self = (Inr (v # vs), w2, s2)"
    by (simp add: 1(1) 2(1))
  have d: "distinct (k # ks) \<and> (\<forall>k' \<in> set (k # ks). ca k' = None) \<longrightarrow>
      (\<forall>i < length (k # ks). (v # vs) ! i = py_getattr ca s2 ((k # ks) ! i))"
  proof (intro impI allI)
    fix i assume dk: "distinct (k # ks) \<and> (\<forall>k' \<in> set (k # ks). ca k' = None)"
      and i: "i < length (k # ks)"
    show "(v # vs) ! i = py_getattr ca s2 ((k # ks) ! i)"
    proof (cases i)
      case 0
      have "k \<notin> set ks" using dk by simp
      then have "py_getattr ca s2 k = py_getattr ca s1 k" using 2(4) by blast
      moreover have "py_getattr ca s1 k = v" using dk 1(2) by simp
      ultimately show ?thesis using 0 by simp
    next
      case (Suc j)
      have "j < length ks" using i Suc by simp
      moreover have "distinct ks \<and> (\<forall>k \<in> set ks. ca k = None)" using dk by simp
      ultimately have "vs ! j = py_getattr ca s2 (ks ! j)" using 2(3) by blast
      then show ?thesis using Suc by simp
    qed
  qed
  have k: "\<forall>k'. k' \<notin> set (k # ks) \<or> py_getattr ca self k' \<noteq> PNone \<longrightarrow>
      py_getattr ca s2 k' = py_getattr ca self k'"
  proof (intro allI impI)
    fix k' assume h: "k' \<notin> set (k # ks) \<or> py_getattr ca self k' \<noteq> PNone"
    then have a: "py_getattr ca s1 k' = py_getattr ca self k'" using 1(3) by auto
    from h have "k' \<notin> set ks \<or> py_getattr ca s1 k' \<noteq> PNone" using a by auto
    then have "py_getattr ca s2 k' = py_getattr ca s1 k'" using 2(4) by blast
    then show "py_getattr ca s2 k' = py_getattr ca self k'" using a by simp
  qed
  show ?case using r 2(2) d k by simp
qed

lemma save_args_ok:
  assumes "derived_schema w0 cname a = Some sc"
  shows "\<exists>args w' s'. save_args sc ca w self = (Inr args, w', s') \<and>
      length args = length (s_fields sc) + 1 \<and>
      (distinct (map fst a) \<and> (\<forall>k \<in> set (s_primary_key sc # s_fields sc). ca k = None) \<longrightarrow>
        (\<forall>i < length (s_fields sc). args ! i = py_getattr ca s' (s_fields sc ! i)) \<and>
        last args = py_getattr ca s' (s_primary_key sc)) \<and>
      (\<forall>k. py_getattr ca self k \<noteq> PNone \<longrightarrow> py_getattr ca s' k = py_getattr ca self k)"
proof -
  from map_gvod_ok [OF derived_keys(1) [OF assms], of ca w self] obtain vs w1 s1 where
    1: "map_getValueOrDefault sc ca (s_fields sc) w self = (Inr vs, w1, s1)"
      "length vs = length (s_fields sc)"
      "distinct (s_fields sc) \<and> (\<forall>k \<in> set (s_fields sc). ca k = None) \<longrightarrow>
         (\<forall>i < length (s_fields sc). vs ! i = py_getattr ca s1 (s_fields sc ! i))"
      "\<forall>k. k \<notin> set (s_fields sc) \<or> py_getattr ca self k \<noteq> PNone \<longrightarrow>
         py_getattr ca s1 k = py_getattr ca self k"
    by (elim exE conjE)
  from derived_keys(2) [OF assms] obtain fld where
    "map_of (s_mappings sc) (s_primary_key sc) = Some fld"
    by (metis map_of_eq_None_iff not_Some_eq)
  from gvod_ok [OF this, of ca w1 s1] obtain v w2 s2 where
    2: "Model_getValueOrDefault sc ca w1 s1 (s_primary_key sc) = (Inr v, w2, s2)"
      "ca (s_primary_key sc) = None \<longrightarrow> py_getattr ca s2 (s_primary_key sc) = v"
      "\<forall>k. k \<noteq> s_primary_key sc \<or> py_getattr ca s1 k \<noteq> PNone \<longrightarrow>
         py_getattr ca s2 k = py_getattr ca s1 k"
    by (elim exE conjE)
  have r: "save_args sc ca w self = (Inr (vs @ [v]), w2, s2)"
    by (simp add: save_args_def 1(1) 2(1))
  have i: "distinct (map fst a) \<and> (\<forall>k \<in> set (s_primary_key sc # s_fields sc). ca k = None) \<longrightarrow>
      (\<forall>i < length (s_fields sc). (vs @ [v]) ! i = py_getattr ca s2 (s_fields sc ! i)) \<and>
      last (vs @ [v]) = py_getattr ca s2 (s_primary_key sc)"
  proof (intro impI conjI allI)
    fix i assume h: "distinct (map fst a) \<and>
        (\<forall>k \<in> set (s_primary_key sc # s_fields sc). ca k = None)"
      and i: "i < length (s_fields sc)"
    then have d: "distinct (map fst a)" by simp
    have "s_fields sc ! i \<noteq> s_primary_key sc"
      using derived_distinct(2) [OF assms d] i by (metis nth_mem)
    then have "py_getattr ca s2 (s_fields sc ! i) = py_getattr ca s1 (s_fields sc ! i)"
      using 2(3) by simp
    then show "(vs @ [v]) ! i = py_getattr ca s2 (s_fields sc ! i)"
      using 1(2,3) derived_distinct(1) [OF assms d] i h by (simp add: nth_append)
  next
    assume "distinct (map fst a) \<and> (\<forall>k \<in> set (s_primary_key sc # s_fields sc). ca k = None)"
    then show "last (vs @ [v]) = py_getattr ca s2 (s_primary_key sc)"
      using 2(2) by simp
  qed
  have k: "\<forall>k. py_getattr ca self k \<noteq> PNone \<longrightarrow> py_getattr ca s2 k = py_getattr ca self k"
  proof (intro allI impI)
    fix k assume h: "py_getattr ca self k \<noteq> PNone"
    then have a: "py_getattr ca s1 k = py_getattr ca self k" using 1(4) by blast
    then have "k \<noteq> s_primary_key sc \<or> py_getattr ca s1 k \<noteq> PNone" using h by simp
    then have "py_getattr ca s2 k = py_getattr ca s1 k" using 2(3) by blast
    then show "py_getattr ca s2 k = py_getattr ca self k" using a by simp
  qed
  show ?thesis
  proof (intro exI conjI)
    show "save_args sc ca w self = (Inr (vs @ [v]), w2, s2)" by (rule r)
    show "length (vs @ [v]) = length (s_fields sc) + 1" by (simp add: 1(2))
    show "distinct (map fst a) \<and> (\<forall>k \<in> set (s_primary_key sc # s_fields sc). ca k = None) \<longrightarrow>
      (\<forall>i < length (s_fields sc). (vs @ [v]) ! i = py_getattr ca s2 (s_fields sc ! i)) \<and>
      last (vs @ [v]) = py_getattr ca s2 (s_primary_key sc)" by (rule i)
    show "\<forall>k. py_getattr ca self k \<noteq> PNone \<longrightarrow> py_getattr ca s2 k = py_getattr ca self k"
      by (rule k)
  qed
qed

lemmas run_defs = save_args_def Model_getValueOrDefault_def py_getattr_def invoke_def emit_def
  world1_def user_schema_v_def StringField_def Field_def users_driver_def ann_def
  Model_getValue_def user_class_attrs_def

lemma ann_save_args:
  "save_args user_schema_v user_class_attrs world1 ann =
     (Inr [PStr ''Ann'', PInt 0, PInt 3],
      \<lparr>calls = (\<lambda>g. 3)(0 := 4), results = (\<lambda>g n. PInt (int n)),
        logged = [(INFO, ''create database connection pool...''),
                  (DEBUG, ''using default value for age: 0''),
                  (DEBUG, ''using default value for id: 3'')]\<rparr>,
      [(''name'', PStr ''Ann''), (''age'', PInt 0), (''id'', PInt 3)])"
  by (simp add: run_defs Let_def str_int_def str_nat.simps fun_eq_iff)

text \<open>
  A field named \<open>items\<close>: the read returns the method of \<open>dict\<close>, not what the
  instance stores.
\<close>

lemma items_is_the_method:
  "Model_getValueOrDefault user_schema_v user_class_attrs world1 [(''items'', PStr ''stored'')]
     ''items'' =
     (Inr (PObj ''<bound method items>''), world1, [(''items'', PStr ''stored'')])"
  by (simp add: Model_getValueOrDefault_def py_getattr_def user_class_attrs_def)

section \<open>The claims\<close>

text \<open>
  C1, as the code has it. For every class name other than \<open>Model\<close> and every
  declared set of fields whose attribute names are not empty: construction through the
  metaclass returns a class with a schema if exactly one field is marked primary key;
  it raises RuntimeError \<open>Primary key not found.\<close> if none is, and RuntimeError
  \<open>Duplicate primary key for field: k\<close>, \<open>k\<close> being the second such field, if two
  or more are. A raise is the left summand: no class is returned.
\<close>

theorem single_primary_key:
  assumes "cname \<noteq> ''Model''" and "\<forall>p \<in> set (field_items a). fst p \<noteq> []"
  shows "(length (pk_items a) = 1 \<longrightarrow>
            (\<exists>kl sc. fst (ModelMetaclass_new w cname a) = Inr kl \<and> k_schema kl = Some sc \<and>
               s_primary_key sc = fst (hd (pk_items a)))) \<and>
         (pk_items a = [] \<longrightarrow>
            fst (ModelMetaclass_new w cname a) = Inl (RuntimeError ''Primary key not found.'')) \<and>
         (2 \<le> length (pk_items a) \<longrightarrow>
            fst (ModelMetaclass_new w cname a) =
              Inl (RuntimeError (''Duplicate primary key for field: '' @ fst (pk_items a ! 1))))"
proof (intro conjI impI)
  assume "pk_items a = []"
  then have "\<forall>p \<in> set (field_items a). \<not> primary_key (snd p)"
    by (simp add: pk_items_def filter_empty_conv)
  then obtain st where "scan_fields (field_items a) scan0 = Inr st" "primaryKey st = None"
    using scan_fields_pk_none [of scan0 "field_items a"] by (auto simp: scan0_def)
  then show "fst (ModelMetaclass_new w cname a) = Inl (RuntimeError ''Primary key not found.'')"
    using new_no_pk [OF assms(1), of a st w] by simp
next
  assume "length (pk_items a) = 1"
  then obtain q where q: "[p \<leftarrow> field_items a. primary_key (snd p)] = [q]"
    by (cases "pk_items a") (auto simp: pk_items_def)
  have "primaryKey scan0 = None" by (simp add: scan0_def)
  from scan_fields_first_pk [OF this q] obtain ys zs st1 where
    split: "field_items a = ys @ q # zs" "[p \<leftarrow> zs. primary_key (snd p)] = []"
      "primaryKey st1 = Some (fst q)"
      "scan_fields (field_items a) scan0 = scan_fields zs st1"
    by blast
  have "\<forall>p \<in> set zs. \<not> primary_key (snd p)"
    using split(2) by (simp add: filter_empty_conv)
  from scan_fields_pk_kept [OF split(3) this] obtain st where
    st: "scan_fields (field_items a) scan0 = Inr st" "primaryKey st = Some (fst q)"
    using split(4) by auto
  have "fst q \<noteq> []" using assms(2) split(1) by simp
  from new_mapped [OF assms(1) st this, of w] q
  show "\<exists>kl sc. fst (ModelMetaclass_new w cname a) = Inr kl \<and> k_schema kl = Some sc \<and>
      s_primary_key sc = fst (hd (pk_items a))"
    by (auto simp: pk_items_def)
next
  assume "2 \<le> length (pk_items a)"
  then obtain q q2 qs where q: "[p \<leftarrow> field_items a. primary_key (snd p)] = q # q2 # qs"
    by (cases "pk_items a"; cases "tl (pk_items a)") (auto simp: pk_items_def)
  have "primaryKey scan0 = None" by (simp add: scan0_def)
  from scan_fields_first_pk [OF this q] obtain ys zs st1 where
    split: "field_items a = ys @ q # zs" "[p \<leftarrow> zs. primary_key (snd p)] = q2 # qs"
      "primaryKey st1 = Some (fst q)"
      "scan_fields (field_items a) scan0 = scan_fields zs st1"
    by blast
  have "fst q \<noteq> []" using assms(2) split(1) by simp
  from scan_fields_dup [OF split(3) this split(2)] split(4)
  have "scan_fields (field_items a) scan0 =
      Inl (RuntimeError (''Duplicate primary key for field: '' @ fst q2))" by simp
  from new_scan_error [OF assms(1) this, of w] q
  show "fst (ModelMetaclass_new w cname a) =
      Inl (RuntimeError (''Duplicate primary key for field: '' @ fst (pk_items a ! 1)))"
    by (simp add: pk_items_def)
qed

theorem single_primary_key_witness:
  "map_option s_primary_key (derived_schema world0 ''User'' user_attrs) = Some ''id'' \<and>
   fst (ModelMetaclass_new world0 ''User'' nokey_attrs) =
     Inl (RuntimeError ''Primary key not found.'') \<and>
   fst (ModelMetaclass_new world0 ''User'' twokey_attrs) =
     Inl (RuntimeError ''Duplicate primary key for field: uid'')"
proof -
  have n: "''User'' \<noteq> ''Model''" by simp
  have k1: "\<forall>p \<in> set (field_items user_attrs). fst p \<noteq> []"
    and k2: "\<forall>p \<in> set (field_items nokey_attrs). fst p \<noteq> []"
    and k3: "\<forall>p \<in> set (field_items twokey_attrs). fst p \<noteq> []"
    by (simp_all add: example_defs)
  have p1: "length (pk_items user_attrs) = 1" "fst (hd (pk_items user_attrs)) = ''id''"
    and p2: "pk_items nokey_attrs = []"
    and p3: "2 \<le> length (pk_items twokey_attrs)" "fst (pk_items twokey_attrs ! 1) = ''uid''"
    by (simp_all add: example_defs)
  show ?thesis
    using single_primary_key [OF n k1, of world0] single_primary_key [OF n k2, of world0]
      single_primary_key [OF n k3, of world0] p1 p2 p3
    by (auto simp: derived_schema_def)
qed

text \<open>
  The class named \<open>Model\<close> is returned as it is, without a schema and without an
  error, though none of its attributes is a primary key.
\<close>

theorem single_primary_key_counterexample:
  "pk_items model_attrs = [] \<and>
   fst (ModelMetaclass_new world0 ''Model'' model_attrs) =
     Inr \<lparr>k_name = ''Model'', k_attrs = model_attrs, k_schema = None\<rparr>"
  by (simp add: ModelMetaclass_new_def pk_items_def model_attrs_def)



text \<open>
  C3, as the code has it. For every mapped type and every ordinary field, the update
  template refers to the field by its back-quoted column name, which is the name the
  descriptor declares when it declares a non-empty one and the attribute name
  otherwise; the select and insert templates refer to it by that back-quoted column
  name when it is the attribute name; the delete template names the primary-key
  column only.
\<close>

theorem column_references:
  assumes "derived_schema w cname a = Some sc" and "distinct (map fst a)"
    and "p \<in> set (ordinary_items a)"
  shows "occurs (s_update sc) (''`'' @ column_name p @ ''`=?'') \<and>
         (column_name p = fst p \<longrightarrow>
            occurs (s_select sc) (''`'' @ column_name p @ ''`'') \<and>
            occurs (s_insert sc) (''`'' @ column_name p @ ''`'')) \<and>
         s_delete sc = ''delete from `'' @ table_text cname a @ ''` where `'' @
           s_primary_key sc @ ''`=?'' \<and>
         (name (snd p) = None \<longrightarrow> column_name p = fst p) \<and>
         (\<forall>n. name (snd p) = Some n \<longrightarrow> column_name p = (if n = [] then fst p else n))"
proof (intro conjI impI allI)
  have "''`'' @ column_name p @ ''`=?'' \<in>
      set (map (\<lambda>p. ''`'' @ column_name p @ ''`=?'') (ordinary_items a))"
    using assms(3) by auto
  from join_member [OF this, of "'',''"] obtain u v where
    "join '','' (map (\<lambda>p. ''`'' @ column_name p @ ''`=?'') (ordinary_items a)) =
       u @ (''`'' @ column_name p @ ''`=?'') @ v" by blast
  then have "s_update sc = (''update `'' @ table_text cname a @ ''` set '' @ u) @
      (''`'' @ column_name p @ ''`=?'') @ (v @ '' where `'' @ s_primary_key sc @ ''`=?'')"
    by (simp add: derived_update [OF assms(1,2)])
  then show "occurs (s_update sc) (''`'' @ column_name p @ ''`=?'')"
    by (simp only: occurs_append)
next
  assume c: "column_name p = fst p"
  have "''`'' @ fst p @ ''`'' \<in> set (map (\<lambda>f. ''`'' @ f @ ''`'') (s_fields sc))"
    using assms(3) by (auto simp: derived_fields [OF assms(1)])
  from join_member [OF this, of "'',''"] obtain u v where
    j: "join '','' (map (\<lambda>f. ''`'' @ f @ ''`'') (s_fields sc)) = u @ (''`'' @ fst p @ ''`'') @ v"
    by blast
  have "s_select sc = (''select `'' @ s_primary_key sc @ ''`, '' @ u) @
      (''`'' @ fst p @ ''`'') @ (v @ '' from `'' @ attr_str (tableName cname a) @ ''`'')"
    unfolding derived_templates(4) [OF assms(1)] j by simp
  then show "occurs (s_select sc) (''`'' @ column_name p @ ''`'')"
    by (simp only: occurs_append c)
  have "s_insert sc = (''insert into `'' @ attr_str (tableName cname a) @ ''` ('' @ u) @
      (''`'' @ fst p @ ''`'') @ (v @ '', `'' @ s_primary_key sc @ ''`) values ('' @
        create_args_string (length (s_fields sc) + 1) @ '')'')"
    unfolding derived_templates(5) [OF assms(1)] j by simp
  then show "occurs (s_insert sc) (''`'' @ column_name p @ ''`'')"
    by (simp only: occurs_append c)
next
  show "s_delete sc = ''delete from `'' @ table_text cname a @ ''` where `'' @
      s_primary_key sc @ ''`=?''"
    using derived_templates(6) [OF assms(1)] by (simp add: table_text_def)
next
  assume "name (snd p) = None"
  then show "column_name p = fst p" by (simp add: column_name_def name_or_def)
next
  fix n assume "name (snd p) = Some n"
  then show "column_name p = (if n = [] then fst p else n)"
    by (simp add: column_name_def name_or_def)
qed

theorem column_references_witness:
  "map_option (\<lambda>sc. occurs (s_update sc) ''`name`=?'')
     (derived_schema world0 ''User'' user_attrs) = Some True \<and>
   map_option (\<lambda>sc. occurs (s_select sc) ''`name`'')
     (derived_schema world0 ''User'' user_attrs) = Some True \<and>
   map_option (\<lambda>sc. occurs (s_insert sc) ''`name`'')
     (derived_schema world0 ''User'' user_attrs) = Some True \<and>
   map_option s_delete (derived_schema world0 ''User'' user_attrs) =
     Some ''delete from `users` where `id`=?'' \<and>
   column_name (''nick'', StringField (Some ''nickname'') False (DVal PNone) ''varchar(50)'') =
     ''nickname'' \<and>
   map_option (\<lambda>sc. occurs (s_update sc) ''`nickname`=?'')
     (derived_schema world0 ''User'' nick_attrs) = Some True"
proof -
  obtain sc where sc: "derived_schema world0 ''User'' user_attrs = Some sc"
    using user_schema by blast
  have d: "distinct (map fst user_attrs)" by (simp add: user_attrs_def)
  have m: "(''name'', StringField None False (DVal PNone) ''varchar(100)'')
      \<in> set (ordinary_items user_attrs)"
    by (simp add: example_defs)
  have c: "column_name (''name'', StringField None False (DVal PNone) ''varchar(100)'') = ''name''"
    by (simp add: column_name_def name_or_def StringField_def Field_def)
  have t: "table_text ''User'' user_attrs = ''users''"
    by (simp add: table_text_def tableName_def user_attrs_def)
  have p: "s_primary_key sc = ''id''"
    using derived_primary_key [OF sc] by (simp add: example_defs)
  obtain sc' where sc': "derived_schema world0 ''User'' nick_attrs = Some sc'"
    using nick_schema by blast
  have d': "distinct (map fst nick_attrs)" by (simp add: nick_attrs_def)
  have m': "(''nick'', StringField (Some ''nickname'') False (DVal PNone) ''varchar(50)'')
      \<in> set (ordinary_items nick_attrs)"
    by (simp add: example_defs)
  have n': "name (snd (''nick'', StringField (Some ''nickname'') False (DVal PNone) ''varchar(50)''))
      = Some ''nickname''"
    by (simp add: StringField_def Field_def)
  note T' = column_references [OF sc' d' m']
  have c': "column_name (''nick'', StringField (Some ''nickname'') False (DVal PNone) ''varchar(50)'')
      = ''nickname''"
    using T' n' by simp
  from column_references [OF sc d m, unfolded c t p] T' [unfolded c'] c' show ?thesis
    by (simp add: sc sc')
qed

text \<open>
  A field \<open>nick\<close> declared with the column name \<open>nickname\<close>: the update template
  says \<open>`nickname`\<close>, the select and insert templates say \<open>`nick`\<close>, and the
  delete template mentions neither.
\<close>

theorem column_references_counterexample:
  "(''nick'', StringField (Some ''nickname'') False (DVal PNone) ''varchar(50)'')
     \<in> set (ordinary_items nick_attrs) \<and>
   map_option s_select (derived_schema world0 ''User'' nick_attrs) =
     Some ''select `id`, `nick` from `User`'' \<and>
   \<not> occurs ''select `id`, `nick` from `User`'' ''`nickname`'' \<and>
   map_option s_insert (derived_schema world0 ''User'' nick_attrs) =
     Some ''insert into `User` (`nick`, `id`) values (?,?)'' \<and>
   \<not> occurs ''insert into `User` (`nick`, `id`) values (?,?)'' ''`nickname`'' \<and>
   map_option s_update (derived_schema world0 ''User'' nick_attrs) =
     Some ''update `User` set `nickname`=? where `id`=?'' \<and>
   map_option s_delete (derived_schema world0 ''User'' nick_attrs) =
     Some ''delete from `User` where `id`=?'' \<and>
   \<not> occurs ''delete from `User` where `id`=?'' ''`nickname`'' \<and>
   \<not> occurs ''delete from `User` where `id`=?'' ''`nick`''"
  by (simp add: derived_schema_def ModelMetaclass_new_def example_defs
      Let_def tableName_def emit_def create_args_string_def name_or_def)

text \<open>
  C4. For every mapped type (its namespace being a dict: no key twice), the update
  template is \<open>update `T` set `c1`=?,...,`cn`=? where `pk`=?\<close>, with one
  \<open>`column`=?\<close> per ordinary field in declaration order and then the primary-key
  placeholder, and the delete template is \<open>delete from `T` where `pk`=?\<close>. For the
  fields id (primary key), name and age, declared without column names in a class
  \<open>c\<close> with no \<open>__table__\<close>, the templates are
  \<open>update `c` set `name`=?,`age`=? where `id`=?\<close> and
  \<open>delete from `c` where `id`=?\<close>.
\<close>

theorem update_delete_templates:
  assumes "derived_schema w cname a = Some sc" and "distinct (map fst a)"
  shows "s_update sc = ''update `'' @ table_text cname a @ ''` set '' @
           join '','' (map (\<lambda>p. ''`'' @ column_name p @ ''`=?'') (ordinary_items a)) @
           '' where `'' @ s_primary_key sc @ ''`=?'' \<and>
         s_delete sc = ''delete from `'' @ table_text cname a @ ''` where `'' @
           s_primary_key sc @ ''`=?'' \<and>
         s_primary_key sc = fst (last (pk_items a)) \<and>
         (c \<noteq> ''Model'' \<and> primary_key fid \<and> \<not> primary_key fname \<and> \<not> primary_key fage \<and>
          name fname = None \<and> name fage = None \<longrightarrow>
            map_option s_update (derived_schema w c (round_trip_attrs fid fname fage)) =
              Some (''update `'' @ c @ ''` set `name`=?,`age`=? where `id`=?'') \<and>
            map_option s_delete (derived_schema w c (round_trip_attrs fid fname fage)) =
              Some (''delete from `'' @ c @ ''` where `id`=?''))"
proof (intro conjI impI)
  show "s_update sc = ''update `'' @ table_text cname a @ ''` set '' @
      join '','' (map (\<lambda>p. ''`'' @ column_name p @ ''`=?'') (ordinary_items a)) @
      '' where `'' @ s_primary_key sc @ ''`=?''"
    by (rule derived_update [OF assms])
  show "s_delete sc = ''delete from `'' @ table_text cname a @ ''` where `'' @
      s_primary_key sc @ ''`=?''"
    using derived_templates(6) [OF assms(1)] by (simp add: table_text_def)
  show "s_primary_key sc = fst (last (pk_items a))"
    using derived_primary_key [OF assms(1)] by simp
next
  let ?a = "round_trip_attrs fid fname fage"
  assume ex: "c \<noteq> ''Model'' \<and> primary_key fid \<and> \<not> primary_key fname \<and> \<not> primary_key fage \<and>
      name fname = None \<and> name fage = None"
  have sc: "scan_fields (field_items ?a) scan0 =
      Inr \<lparr>mappings = [(''id'', fid), (''name'', fname), (''age'', fage)],
           field_keys = [''name'', ''age''], primaryKey = Some ''id''\<rparr>"
    using ex by (simp add: round_trip_attrs_def scan0_def Let_def)
  from derived_schemaI [OF _ sc, of c "''id''" w] ex obtain sc' where
    sc': "derived_schema w c ?a = Some sc'" by auto
  have d: "distinct (map fst ?a)" by (simp add: round_trip_attrs_def)
  have t: "table_text c ?a = c" by (simp add: table_text_def tableName_def round_trip_attrs_def)
  have o: "ordinary_items ?a = [(''name'', fname), (''age'', fage)]"
    and p: "pk_items ?a = [(''id'', fid)]"
    using ex by (simp_all add: ordinary_items_def pk_items_def round_trip_attrs_def)
  have pk: "s_primary_key sc' = ''id''" using derived_primary_key [OF sc'] by (simp add: p)
  show "map_option s_update (derived_schema w c ?a) =
      Some (''update `'' @ c @ ''` set `name`=?,`age`=? where `id`=?'')"
    using derived_update [OF sc' d] ex
    by (simp add: sc' t o pk column_name_def name_or_def)
  show "map_option s_delete (derived_schema w c ?a) =
      Some (''delete from `'' @ c @ ''` where `id`=?'')"
    using derived_templates(6) [OF sc'] t by (simp add: sc' pk table_text_def)
qed

theorem update_delete_templates_witness:
  "map_option s_update (derived_schema world0 ''User'' user_attrs) =
     Some ''update `users` set `name`=?,`age`=? where `id`=?'' \<and>
   map_option s_delete (derived_schema world0 ''User'' user_attrs) =
     Some ''delete from `users` where `id`=?'' \<and>
   map_option s_update (derived_schema world0 ''User''
       (round_trip_attrs (StringField None True (DVal PNone) ''varchar(50)'')
          (StringField None False (DVal PNone) ''varchar(100)'')
          (Field None ''bigint'' False (DVal (PInt 0))))) =
     Some ''update `User` set `name`=?,`age`=? where `id`=?'' \<and>
   map_option s_delete (derived_schema world0 ''User''
       (round_trip_attrs (StringField None True (DVal PNone) ''varchar(50)'')
          (StringField None False (DVal PNone) ''varchar(100)'')
          (Field None ''bigint'' False (DVal (PInt 0))))) =
     Some ''delete from `User` where `id`=?''"
proof -
  obtain sc where sc: "derived_schema world0 ''User'' user_attrs = Some sc"
    using user_schema by blast
  have d: "distinct (map fst user_attrs)" by (simp add: user_attrs_def)
  have t: "table_text ''User'' user_attrs = ''users''"
    by (simp add: table_text_def tableName_def user_attrs_def)
  have o: "join '','' (map (\<lambda>p. ''`'' @ column_name p @ ''`=?'') (ordinary_items user_attrs)) =
      ''`name`=?,`age`=?''"
    by (simp add: example_defs column_name_def name_or_def)
  have p: "fst (last (pk_items user_attrs)) = ''id''" by (simp add: example_defs)
  have ex: "''User'' \<noteq> ''Model'' \<and>
      primary_key (StringField None True (DVal PNone) ''varchar(50)'') \<and>
      \<not> primary_key (StringField None False (DVal PNone) ''varchar(100)'') \<and>
      \<not> primary_key (Field None ''bigint'' False (DVal (PInt 0))) \<and>
      name (StringField None False (DVal PNone) ''varchar(100)'') = None \<and>
      name (Field None ''bigint'' False (DVal (PInt 0))) = None"
    by (simp add: StringField_def Field_def)
  note T = update_delete_templates [OF sc d, of "''User''"
        "StringField None True (DVal PNone) ''varchar(50)''"
        "StringField None False (DVal PNone) ''varchar(100)''"
        "Field None ''bigint'' False (DVal (PInt 0))"]
  from T [unfolded t o p] ex show ?thesis
    by (simp add: sc)
qed

text \<open>
  C5. Two derivations from the same field declarations (the same attribute names and
  descriptors in the same order) and the same table name end alike: both raise the
  same error, or both return a class with the same four templates, whatever else the
  two namespaces hold and whatever was logged or called before.
\<close>

theorem templates_deterministic:
  assumes "field_items a1 = field_items a2"
    and "table_text c1 a1 = table_text c2 a2"
    and "(c1 = ''Model'') = (c2 = ''Model'')"
  shows "map_sum id (\<lambda>kl. map_option templates (k_schema kl)) (fst (ModelMetaclass_new w1 c1 a1)) =
         map_sum id (\<lambda>kl. map_option templates (k_schema kl)) (fst (ModelMetaclass_new w2 c2 a2))"
proof (cases "c1 = ''Model''")
  case True
  then show ?thesis using assms(3) by (simp add: ModelMetaclass_new_def)
next
  case False
  then have n1: "c1 \<noteq> ''Model''" and n2: "c2 \<noteq> ''Model''" using assms(3) by auto
  show ?thesis
  proof (cases "scan_fields (field_items a1) scan0")
    case (Inl e)
    then show ?thesis
      using new_scan_error [OF n1 Inl, of w1] new_scan_error [OF n2, of a2 e w2] assms(1)
      by simp
  next
    case (Inr st)
    show ?thesis
    proof (cases "key_truthy (primaryKey st)")
      case False
      then show ?thesis
        using new_no_pk [OF n1 Inr False, of w1] new_no_pk [OF n2, of a2 st w2] Inr assms(1)
        by simp
    next
      case True
      then obtain pk where pk: "primaryKey st = Some pk" "pk \<noteq> []"
        by (cases "primaryKey st") auto
      have Inr2: "scan_fields (field_items a2) scan0 = Inr st" using Inr assms(1) by simp
      have t: "attr_str (tableName c1 a1) = attr_str (tableName c2 a2)"
        using assms(2) by (simp add: table_text_def)
      from new_mapped [OF n1 Inr pk, of w1] obtain k1 s1 where
        1: "fst (ModelMetaclass_new w1 c1 a1) = Inr k1" "k_schema k1 = Some s1"
          "templates s1 = (''select `'' @ pk @ ''`, '' @
              join '','' (map (\<lambda>f. ''`'' @ f @ ''`'') (field_keys st)) @ '' from `'' @
              attr_str (tableName c1 a1) @ ''`'',
            ''insert into `'' @ attr_str (tableName c1 a1) @ ''` ('' @
              join '','' (map (\<lambda>f. ''`'' @ f @ ''`'') (field_keys st)) @ '', `'' @ pk @
              ''`) values ('' @ create_args_string (length (field_keys st) + 1) @ '')'',
            ''update `'' @ attr_str (tableName c1 a1) @ ''` set '' @
              join '','' (map (\<lambda>f. ''`'' @ name_or (name (the (map_of (mappings st) f))) f @ ''`=?'')
                (field_keys st)) @ '' where `'' @ pk @ ''`=?'',
            ''delete from `'' @ attr_str (tableName c1 a1) @ ''` where `'' @ pk @ ''`=?'')"
        unfolding templates_def by (elim exE conjE) simp
      from new_mapped [OF n2 Inr2 pk, of w2] obtain k2 s2 where
        2: "fst (ModelMetaclass_new w2 c2 a2) = Inr k2" "k_schema k2 = Some s2"
          "templates s2 = (''select `'' @ pk @ ''`, '' @
              join '','' (map (\<lambda>f. ''`'' @ f @ ''`'') (field_keys st)) @ '' from `'' @
              attr_str (tableName c2 a2) @ ''`'',
            ''insert into `'' @ attr_str (tableName c2 a2) @ ''` ('' @
              join '','' (map (\<lambda>f. ''`'' @ f @ ''`'') (field_keys st)) @ '', `'' @ pk @
              ''`) values ('' @ create_args_string (length (field_keys st) + 1) @ '')'',
            ''update `'' @ attr_str (tableName c2 a2) @ ''` set '' @
              join '','' (map (\<lambda>f. ''`'' @ name_or (name (the (map_of (mappings st) f))) f @ ''`=?'')
                (field_keys st)) @ '' where `'' @ pk @ ''`=?'',
            ''delete from `'' @ attr_str (tableName c2 a2) @ ''` where `'' @ pk @ ''`=?'')"
        unfolding templates_def by (elim exE conjE) simp
      show ?thesis by (simp add: 1 2 t)
    qed
  qed
qed

theorem templates_deterministic_witness:
  "map_sum id (\<lambda>kl. map_option templates (k_schema kl))
     (fst (ModelMetaclass_new world0 ''User'' user_attrs)) =
   map_sum id (\<lambda>kl. map_option templates (k_schema kl))
     (fst (ModelMetaclass_new world1 ''users'' methods_attrs))"
proof -
  have f: "field_items user_attrs = field_items methods_attrs"
    by (simp add: user_attrs_def methods_attrs_def)
  have t: "table_text ''User'' user_attrs = table_text ''users'' methods_attrs"
    by (simp add: table_text_def tableName_def user_attrs_def methods_attrs_def)
  have m: "(''User'' = ''Model'') = (''users'' = ''Model'')" by simp
  show ?thesis by (rule templates_deterministic [OF f t m])
qed

text \<open>
  C6, as the code has it. For a field that is unset and has a default, and whose name
  is not the name of an attribute of the class, if the first \<open>getValueOrDefault\<close>
  resolves to a value other than \<open>None\<close>, then every later \<open>getValueOrDefault\<close> on
  that field returns that value again (and changes neither the instance nor the world).
\<close>

theorem default_read_stable:
  assumes "ca key = None" and "py_getattr ca self key = PNone"
    and "map_of (s_mappings cls) key = Some fld"
    and "default_v fld \<noteq> DVal PNone"
    and "fst (Model_getValueOrDefault cls ca w self key) \<noteq> Inr PNone"
  shows "(read_again cls ca key ^^ n) (Model_getValueOrDefault cls ca w self key) =
           Model_getValueOrDefault cls ca w self key \<and>
         fst ((read_again cls ca key ^^ n) (Model_getValueOrDefault cls ca w self key)) =
           fst (Model_getValueOrDefault cls ca w self key)"
proof -
  have "(read_again cls ca key ^^ n) (Model_getValueOrDefault cls ca w self key) =
      Model_getValueOrDefault cls ca w self key"
    by (induction n) (simp_all add: read_again_fix [OF assms])
  then show ?thesis by simp
qed

theorem default_read_stable_witness:
  "fst ((read_again user_schema_v user_class_attrs ''id'' ^^ 2)
      (Model_getValueOrDefault user_schema_v user_class_attrs world1 [] ''id'')) = Inr (PInt 3) \<and>
   fst ((read_again user_schema_v user_class_attrs ''age'' ^^ 3)
      (Model_getValueOrDefault user_schema_v user_class_attrs world1 [] ''age'')) = Inr (PInt 0)"
proof -
  have c: "user_class_attrs ''id'' = None" "user_class_attrs ''age'' = None"
    by (simp_all add: user_class_attrs_def)
  have a: "py_getattr user_class_attrs [] ''id'' = PNone"
      "py_getattr user_class_attrs [] ''age'' = PNone"
    by (simp_all add: py_getattr_def c)
  have m1: "map_of (s_mappings user_schema_v) ''id'' =
      Some (StringField None True (DCall 0) ''varchar(50)'')"
    and m2: "map_of (s_mappings user_schema_v) ''age'' =
      Some (Field None ''bigint'' False (DVal (PInt 0)))"
    by (simp_all add: user_schema_v_def)
  have d1: "default_v (StringField None True (DCall 0) ''varchar(50)'') \<noteq> DVal PNone"
    and d2: "default_v (Field None ''bigint'' False (DVal (PInt 0))) \<noteq> DVal PNone"
    by (simp_all add: StringField_def Field_def)
  have v1: "fst (Model_getValueOrDefault user_schema_v user_class_attrs world1 [] ''id'') =
      Inr (PInt 3)"
    and v2: "fst (Model_getValueOrDefault user_schema_v user_class_attrs world1 [] ''age'') =
      Inr (PInt 0)"
    by (simp_all add: Model_getValueOrDefault_def a m1 m2 StringField_def Field_def
        invoke_def world1_def)
  have n1: "fst (Model_getValueOrDefault user_schema_v user_class_attrs world1 [] ''id'') \<noteq>
      Inr PNone"
    and n2: "fst (Model_getValueOrDefault user_schema_v user_class_attrs world1 [] ''age'') \<noteq>
      Inr PNone"
    by (simp_all add: v1 v2)
  show ?thesis
    using default_read_stable [where ca = user_class_attrs and key = "''id''" and n = 2,
        OF c(1) a(1) m1 d1 n1]
      default_read_stable [where ca = user_class_attrs and key = "''age''" and n = 3,
        OF c(2) a(2) m2 d2 n2]
    by (simp add: v1 v2)
qed

text \<open>
  A callable default that returns \<open>None\<close> when first invoked: the first read stores
  and returns \<open>None\<close>, so the second read resolves the default again and returns 7.
\<close>

theorem default_read_stable_counterexample:
  "derived_schema world0 ''User'' user_attrs = Some user_schema_v \<and>
   user_class_attrs ''id'' = None \<and>
   py_getattr user_class_attrs [] ''id'' = PNone \<and>
   map_option default_v (map_of (s_mappings user_schema_v) ''id'') = Some (DCall 0) \<and>
   fst (Model_getValueOrDefault user_schema_v user_class_attrs world_none_first [] ''id'') =
     Inr PNone \<and>
   fst (read_again user_schema_v user_class_attrs ''id''
     (Model_getValueOrDefault user_schema_v user_class_attrs world_none_first [] ''id'')) =
     Inr (PInt 7)"
  by (simp add: user_schema_eq py_getattr_def user_schema_v_def StringField_def Field_def
      Model_getValueOrDefault_def read_again_def invoke_def emit_def world_none_first_def
      user_class_attrs_def)





text \<open>
  C9. For every instance of a mapped type, \<open>save\<close> gathers its arguments without
  error, and when the driver reports for the insert an affected-row count other than
  1, \<open>save\<close> returns normally: it raises nothing, and the last thing it does is log
  the warning \<open>failded to insert record: affected rows: n\<close>.
\<close>

theorem save_tolerates_row_count:
  assumes "derived_schema w0 cname a = Some sc"
  shows "\<exists>args. fst (save_args sc ca w self) = Inr args \<and>
     (\<forall>cur. run d (replace_q (s_insert sc)) args = Inr cur \<and> rowcount cur \<noteq> 1 \<longrightarrow>
        fst (Model_save d sc ca w self) = Inr () \<and>
        snd (snd (Model_save d sc ca w self)) = snd (snd (save_args sc ca w self)) \<and>
        logged (fst (snd (Model_save d sc ca w self))) =
          logged (fst (snd (save_args sc ca w self))) @
            [(INFO, ''SQL: '' @ s_insert sc),
             (WARNING, ''failded to insert record: affected rows: '' @ str_int (rowcount cur))])"
proof -
  from save_args_ok [OF assms, of ca w self] obtain args w' s' where
    s: "save_args sc ca w self = (Inr args, w', s')" by blast
  have h: "\<forall>cur. run d (replace_q (s_insert sc)) args = Inr cur \<and> rowcount cur \<noteq> 1 \<longrightarrow>
        fst (Model_save d sc ca w self) = Inr () \<and>
        snd (snd (Model_save d sc ca w self)) = snd (snd (save_args sc ca w self)) \<and>
        logged (fst (snd (Model_save d sc ca w self))) =
          logged (fst (snd (save_args sc ca w self))) @
            [(INFO, ''SQL: '' @ s_insert sc),
             (WARNING, ''failded to insert record: affected rows: '' @ str_int (rowcount cur))]"
    (is ?H)
    by (simp add: Model_save_def s execute_def Let_def emit_def)
  show ?thesis
  proof (intro exI [of _ args] conjI)
    show "fst (save_args sc ca w self) = Inr args" by (simp add: s)
    show ?H by (rule h)
  qed
qed

theorem save_tolerates_row_count_witness:
  "fst (Model_save (users_driver [] 0) user_schema_v user_class_attrs world1 ann) = Inr () \<and>
   logged (fst (snd (Model_save (users_driver [] 0) user_schema_v user_class_attrs world1 ann))) =
     [(INFO, ''create database connection pool...''),
      (DEBUG, ''using default value for age: 0''),
      (DEBUG, ''using default value for id: 3''),
      (INFO, ''SQL: insert into `users` (`name`,`age`, `id`) values (?,?,?)''),
      (WARNING, ''failded to insert record: affected rows: 0'')] \<and>
   fst (Model_save (users_driver [] 2) user_schema_v user_class_attrs world1 ann) = Inr ()"
proof -
  have r0: "run (users_driver [] 0) (replace_q (s_insert user_schema_v))
      [PStr ''Ann'', PInt 0, PInt 3] = Inr \<lparr>rows = [], rowcount = 0\<rparr>"
    and r2: "run (users_driver [] 2) (replace_q (s_insert user_schema_v))
      [PStr ''Ann'', PInt 0, PInt 3] = Inr \<lparr>rows = [], rowcount = 2\<rparr>"
    by (simp_all add: users_driver_def user_schema_v_def)
  have i: "s_insert user_schema_v = ''insert into `users` (`name`,`age`, `id`) values (?,?,?)''"
    by (simp add: user_schema_v_def)
  have z: "str_int 0 = ''0''" by (simp add: str_int_def str_nat.simps)
  from save_tolerates_row_count [OF user_schema_eq, of user_class_attrs world1 ann
      "users_driver [] 0"]
    save_tolerates_row_count [OF user_schema_eq, of user_class_attrs world1 ann
      "users_driver [] 2"]
  show ?thesis
    by (simp add: ann_save_args r0 r2 z) (simp add: i)
qed

text \<open>
  C10. A mapped type that declares one primary-key field and no ordinary field is
  derived without error; the column list of its select and insert templates is empty
  and leaves a comma behind.
\<close>

theorem primary_key_only:
  assumes "cname \<noteq> ''Model''" and "field_items a = [(k, f)]" and "primary_key f" and "k \<noteq> []"
  shows "\<exists>kl sc. fst (ModelMetaclass_new w cname a) = Inr kl \<and> k_schema kl = Some sc \<and>
     s_primary_key sc = k \<and> s_fields sc = [] \<and>
     s_select sc = ''select `'' @ k @ ''`,  from `'' @ attr_str (tableName cname a) @ ''`'' \<and>
     s_insert sc = ''insert into `'' @ attr_str (tableName cname a) @ ''` (, `'' @ k @
       ''`) values (?)''"
proof -
  have "scan_fields (field_items a) scan0 =
      Inr \<lparr>mappings = [(k, f)], field_keys = [], primaryKey = Some k\<rparr>"
    using assms(2,3) by (simp add: scan0_def Let_def)
  from new_mapped [OF assms(1) this _ assms(4), of w]
  show ?thesis by (auto simp: create_args_string_def)
qed

theorem primary_key_only_witness:
  "map_option s_select (derived_schema world0 ''Tag'' idonly_attrs) =
     Some ''select `id`,  from `Tag`'' \<and>
   map_option s_insert (derived_schema world0 ''Tag'' idonly_attrs) =
     Some ''insert into `Tag` (, `id`) values (?)''"
proof -
  have n: "''Tag'' \<noteq> ''Model''" by simp
  have f: "field_items idonly_attrs =
      [(''id'', StringField None True (DVal PNone) ''varchar(50)'')]"
    by (simp add: idonly_attrs_def)
  have p: "primary_key (StringField None True (DVal PNone) ''varchar(50)'')"
    by (simp add: StringField_def Field_def)
  have k: "''id'' \<noteq> []" by simp
  have t: "attr_str (tableName ''Tag'' idonly_attrs) = ''Tag''"
    by (simp add: tableName_def idonly_attrs_def)
  show ?thesis
    using primary_key_only [OF n f p k, of world0] t
    by (auto simp: derived_schema_def)
qed

end
